theory Spec2Isabelle
  imports Main "HOL-Library.Word"
begin

unbundle bit_operations_syntax

section \<open>The helpers In, IsReadOnly and IsDir\<close>

text \<open>
  \<^verbatim>\<open>func In(needle string, haystack []string) bool\<close>: a linear scan that returns at the
  first equal element.
\<close>

fun In :: "string \<Rightarrow> string list \<Rightarrow> bool" where
  "In needle [] = False"
| "In needle (i # haystack) = (if needle = i then True else In needle haystack)"

text \<open>
  Go's \<^verbatim>\<open>os.FileMode\<close> is a \<^verbatim>\<open>uint32\<close>. \<^verbatim>\<open>ModeDir\<close> is its top bit, \<^verbatim>\<open>ModePerm\<close> is
  octal 0777, \<^verbatim>\<open>Perm()\<close> masks with \<^verbatim>\<open>ModePerm\<close> and \<^verbatim>\<open>IsDir()\<close> tests \<^verbatim>\<open>ModeDir\<close>.
\<close>

type_synonym FileMode = "32 word"

definition ModeDir :: FileMode where
  "ModeDir = push_bit 31 1"

definition ModePerm :: FileMode where
  "ModePerm = 511"

definition Perm :: "FileMode \<Rightarrow> FileMode" where
  "Perm m = m AND ModePerm"

definition FileMode_IsDir :: "FileMode \<Rightarrow> bool" where
  "FileMode_IsDir m = (m AND ModeDir \<noteq> 0)"

section \<open>The operating system and the library, as the program sees them\<close>

text \<open>
  The program talks to its environment through five library calls. They are not code of
  the repository, so they are parameters of the model, over an arbitrary type \<open>'w\<close> of
  worlds (file system and pending standard input):
  \<^item> \<^verbatim>\<open>os.UserHomeDir()\<close>: the home directory, or an error;
  \<^item> \<^verbatim>\<open>os.Stat(path)\<close>: the mode of the file, or an error (the text of the error);
  \<^item> \<^verbatim>\<open>os.Rename(old, new)\<close>: the program discards its result, so only the new world
    is kept;
  \<^item> \<^verbatim>\<open>fmt.Scanln(&s)\<close> on a variable holding the empty string: the program discards the
    count and the error, so the call is the token it stored, if it stored one, and the
    world with that input consumed;
  \<^item> \<^verbatim>\<open>strings.ToLower\<close>.
\<close>

record 'w runtime =
  UserHomeDir :: "'w \<Rightarrow> string + string"
  Stat :: "'w \<Rightarrow> string \<Rightarrow> string + FileMode"
  Rename :: "'w \<Rightarrow> string \<Rightarrow> string \<Rightarrow> 'w"
  Scanln :: "'w \<Rightarrow> string option \<times> 'w"
  ToLower :: "string \<Rightarrow> string"

text \<open>
  What a run does is recorded as a trace: one event for each print statement of the
  source, with the text it writes given by \<open>render\<close>, and one for each call of
  \<^verbatim>\<open>os.Stat\<close> and \<^verbatim>\<open>os.Rename\<close>.
\<close>

datatype event =
    Usage
  | HomeDirError
  | ErrorLine string
  | DirRejection string
  | ReadOnlyRejection
  | Prompt string
  | VerboseName string
  | StatCall string
  | RenameCall string string

definition nl :: string where
  "nl = [CHR 0x0A]"

fun render :: "event \<Rightarrow> string" where
  "render Usage =
     ''Usage:'' @ nl @
     ''    srm [-f | -i] [-dIRrv] <filepath> <...>'' @ nl @
     ''Note:'' @ nl @
     ''    Intended to replace `rm` via a shell alias'' @ nl"
| "render HomeDirError = ''Could not get users home dir'' @ nl"
| "render (ErrorLine err) = err @ nl"
| "render (DirRejection filepath) = ''srm: '' @ filepath @ '': is a directory'' @ nl"
| "render ReadOnlyRejection = ''File is read-only'' @ nl"
| "render (Prompt msg) = msg"
| "render (VerboseName filename) = filename @ nl"
| "render (StatCall filepath) = []"
| "render (RenameCall filepath dest) = []"

record 'w state =
  world :: 'w
  trace :: "event list"

definition emit :: "event \<Rightarrow> 'w state \<Rightarrow> 'w state" where
  "emit ev st = st\<lparr>trace := trace st @ [ev]\<rparr>"

text \<open>
  How the process ends: \<^verbatim>\<open>os.Exit(n)\<close>, or a return from \<^verbatim>\<open>main\<close> (status 0), or a
  run-time panic.
\<close>

datatype status = Exited nat | Panicked

text \<open>One pass through the body of the loop over the operands: go on, or end the process.\<close>

datatype 'w step = Next "'w state" | Halt status "'w state"

fun step_state :: "'w step \<Rightarrow> 'w state" where
  "step_state (Next st) = st"
| "step_state (Halt s st) = st"

text \<open>
  \<^verbatim>\<open>IsDir\<close> and \<^verbatim>\<open>IsReadOnly\<close>: one \<^verbatim>\<open>os.Stat\<close> each; the error of \<^verbatim>\<open>Stat\<close> is handed on.
  Read-only means that the owner's write bit (octal 0200) is clear.
\<close>

definition IsReadOnly :: "'w runtime \<Rightarrow> string \<Rightarrow> 'w state \<Rightarrow> (string + bool) \<times> 'w state" where
  "IsReadOnly rt filepath st =
     (case Stat rt (world st) filepath of
        Inl err \<Rightarrow> (Inl err, emit (StatCall filepath) st)
      | Inr fi \<Rightarrow> (Inr (Perm fi AND 128 = 0), emit (StatCall filepath) st))"

definition IsDir :: "'w runtime \<Rightarrow> string \<Rightarrow> 'w state \<Rightarrow> (string + bool) \<times> 'w state" where
  "IsDir rt filepath st =
     (case Stat rt (world st) filepath of
        Inl err \<Rightarrow> (Inl err, emit (StatCall filepath) st)
      | Inr fi \<Rightarrow> (Inr (FileMode_IsDir fi), emit (StatCall filepath) st))"

section \<open>The program: arguments, confirmation, target directory and main\<close>

definition VALIDARGS :: "string list" where
  "VALIDARGS = [''-h'', ''--help'', ''-P'', ''-f'', ''-i'', ''-I'', ''-r'', ''-R'', ''-d'', ''-v'']"

definition usage :: "'w state \<Rightarrow> 'w state" where
  "usage st = emit Usage st"

text \<open>
  \<^verbatim>\<open>getUserConfirmation\<close>: print the message, scan one token into a variable that
  starts empty, lower-case it, and test it against the seven accepted answers.
\<close>

definition affirmative :: "string list" where
  "affirmative = [''y'', ''yes'', ''yea'', ''yeah'', ''da'', ''si'', ''letsgo'']"

definition getUserConfirmation :: "'w runtime \<Rightarrow> string \<Rightarrow> 'w state \<Rightarrow> bool \<times> 'w state" where
  "getUserConfirmation rt msg st =
     (let st1 = emit (Prompt msg) st;
          scanned = Scanln rt (world st1);
          interactiveResponse = (case fst scanned of None \<Rightarrow> [] | Some tok \<Rightarrow> tok);
          interactiveResponse = ToLower rt interactiveResponse
      in (if In interactiveResponse affirmative then True else False,
          st1\<lparr>world := snd scanned\<rparr>))"

text \<open>
  \<^verbatim>\<open>parseArgs\<close>: the loop over \<^verbatim>\<open>os.Args[1:]\<close>, with its three variables
  \<^verbatim>\<open>seenDoubleDash\<close>, \<^verbatim>\<open>flags\<close> and \<^verbatim>\<open>files\<close>, and in front of it the exit with status 1
  on an empty argument list.
\<close>

fun parseArgs_loop :: "bool \<Rightarrow> string list \<Rightarrow> string list \<Rightarrow> string list \<Rightarrow> string list \<times> string list" where
  "parseArgs_loop seenDoubleDash flags files [] = (flags, files)"
| "parseArgs_loop seenDoubleDash flags files (arg # args) =
     (if arg = ''--'' then parseArgs_loop True flags files args
      else if In arg VALIDARGS \<and> \<not> seenDoubleDash
        then parseArgs_loop seenDoubleDash (flags @ [arg]) files args
      else parseArgs_loop seenDoubleDash flags (files @ [arg]) args)"

definition parseArgs :: "string list \<Rightarrow> 'w state \<Rightarrow> (status + string list \<times> string list) \<times> 'w state" where
  "parseArgs args st =
     (if length args < 1 then (Inl (Exited 1), usage st)
      else (Inr (parseArgs_loop False [] [] args), st))"

text \<open>
  \<^verbatim>\<open>getTargetRmDir\<close>: \<^verbatim>\<open>~/.Trash\<close> when \<^verbatim>\<open>os.Stat\<close> succeeds on it, \<^verbatim>\<open>/tmp\<close> otherwise;
  exit with status 1 when there is no home directory.
\<close>

definition getTargetRmDir :: "'w runtime \<Rightarrow> 'w state \<Rightarrow> (status + string) \<times> 'w state" where
  "getTargetRmDir rt st =
     (case UserHomeDir rt (world st) of
        Inl err \<Rightarrow> (Inl (Exited 1), emit HomeDirError st)
      | Inr homeDir \<Rightarrow>
          (let path = homeDir @ ''/.Trash'' in
           case Stat rt (world st) path of
             Inr fi \<Rightarrow> (Inr path, emit (StatCall path) st)
           | Inl err \<Rightarrow> (Inr ''/tmp'', emit (StatCall path) st)))"

text \<open>
  \<^verbatim>\<open>strings.Split(s, "/")\<close>, for a separator of one byte: the pieces between the
  separators, so one piece more than there are separators, and the one piece \<open>[]\<close> for the
  empty string. \<^verbatim>\<open>strings.TrimRight(s, cutset)\<close> drops every trailing byte of the cutset.
\<close>

fun Split :: "string \<Rightarrow> char \<Rightarrow> string list" where
  "Split [] sep = [[]]"
| "Split (c # s) sep =
     (if c = sep then [] # Split s sep
      else (case Split s sep of [] \<Rightarrow> [[c]] | piece # pieces \<Rightarrow> (c # piece) # pieces))"

definition TrimRight :: "string \<Rightarrow> string \<Rightarrow> string" where
  "TrimRight s cutset = rev (dropWhile (\<lambda>c. c \<in> set cutset) (rev s))"

text \<open>\<^verbatim>\<open>fmt.Sprintf("%d", n)\<close> for the length of a slice: the decimal digits.\<close>

definition digit :: "nat \<Rightarrow> char" where
  "digit d = char_of (48 + d)"

fun decimal :: "nat \<Rightarrow> string" where
  "decimal n = (if n < 10 then [digit n] else decimal (n div 10) @ [digit (n mod 10)])"

declare decimal.simps [simp del]

text \<open>The booleans that \<^verbatim>\<open>main\<close> derives from the flags, each by membership.\<close>

record flagvars =
  helpFlag :: bool
  forceFlag :: bool
  interactiveFlag :: bool
  nonintrusiveInteractiveFlag :: bool
  recursiveFlag :: bool
  directoryFlag :: bool
  verboseFlag :: bool

definition deriveFlags :: "string list \<Rightarrow> flagvars" where
  "deriveFlags flags =
     \<lparr> helpFlag = (In ''-h'' flags \<or> In ''--help'' flags),
       forceFlag = In ''-f'' flags,
       interactiveFlag = In ''-i'' flags,
       nonintrusiveInteractiveFlag = In ''-I'' flags,
       recursiveFlag = (In ''-r'' flags \<or> In ''-R'' flags),
       directoryFlag = In ''-d'' flags,
       verboseFlag = In ''-v'' flags \<rparr>"

text \<open>
  The first statements of the loop body after the directory checks: the name shown for
  the operand is the last piece of the split path, and the destination is the target
  directory, a slash and that name.
\<close>

definition displayName :: "string \<Rightarrow> string" where
  "displayName filepath = (let splitFilePath = Split filepath (CHR ''/'') in last splitFilePath)"

definition destination :: "string \<Rightarrow> string \<Rightarrow> string" where
  "destination targetDir filepath = targetDir @ ''/'' @ displayName filepath"

text \<open>
  The end of the loop body: the trailing slashes are stripped, the file is tested for
  being read-only, its name is printed under \<^verbatim>\<open>-v\<close>, and it is renamed. The slice
  \<^verbatim>\<open>filepath[len(filepath)-1:]\<close> panics when \<^verbatim>\<open>filepath\<close> is empty (its lower bound is -1).
\<close>

definition stripSlash :: "string \<Rightarrow> status + string" where
  "stripSlash filepath =
     (if length filepath = 0 then Inl Panicked
      else if drop (length filepath - 1) filepath = ''/'' then Inr (TrimRight filepath ''/'')
      else Inr filepath)"

definition moveFile :: "'w runtime \<Rightarrow> flagvars \<Rightarrow> string \<Rightarrow> string \<Rightarrow> string \<Rightarrow> 'w state \<Rightarrow> 'w step" where
  "moveFile rt fv filepath filename dest st =
     (case stripSlash filepath of
        Inl panic \<Rightarrow> Halt panic st
      | Inr filepath' \<Rightarrow>
          (case IsReadOnly rt filepath' st of
             (Inl err, st1) \<Rightarrow> Halt (Exited 1) (emit (ErrorLine err) st1)
           | (Inr fileIsReadOnly, st1) \<Rightarrow>
               if fileIsReadOnly \<and> \<not> forceFlag fv then Halt (Exited 1) (emit ReadOnlyRejection st1)
               else
                 (let st2 = (if verboseFlag fv then emit (VerboseName filename) st1 else st1);
                      st3 = emit (RenameCall filepath' dest) st2
                  in Next (st3\<lparr>world := Rename rt (world st3) filepath' dest\<rparr>))))"

text \<open>The loop body from the computation of the name on, with the prompt of \<^verbatim>\<open>-i\<close>.\<close>

definition confirmAndMove :: "'w runtime \<Rightarrow> flagvars \<Rightarrow> string \<Rightarrow> string \<Rightarrow> 'w state \<Rightarrow> 'w step" where
  "confirmAndMove rt fv targetDir filepath st =
     (let filename = displayName filepath;
          dest = destination targetDir filepath
      in if interactiveFlag fv
         then (case getUserConfirmation rt (''remove '' @ filepath @ ''?'') st of
                 (confirmed, st1) \<Rightarrow>
                   if \<not> confirmed then Next st1
                   else moveFile rt fv filepath filename dest st1)
         else moveFile rt fv filepath filename dest st)"

text \<open>The whole loop body for one operand.\<close>

definition removeFile :: "'w runtime \<Rightarrow> flagvars \<Rightarrow> string \<Rightarrow> string \<Rightarrow> 'w state \<Rightarrow> 'w step" where
  "removeFile rt fv targetDir filepath st =
     (case IsDir rt filepath st of
        (Inl err, st1) \<Rightarrow> Halt (Exited 1) (emit (ErrorLine err) st1)
      | (Inr isDir, st1) \<Rightarrow>
          if isDir \<and> \<not> recursiveFlag fv \<and> \<not> directoryFlag fv
          then Halt (Exited 1) (emit (DirRejection filepath) st1)
          else if isDir \<and> nonintrusiveInteractiveFlag fv \<and> recursiveFlag fv
          then (case getUserConfirmation rt (''recursively remove '' @ filepath @ ''?'') st1 of
                  (confirmed, st2) \<Rightarrow>
                    if \<not> confirmed then Next st2
                    else confirmAndMove rt fv targetDir filepath st2)
          else confirmAndMove rt fv targetDir filepath st1)"

text \<open>The loop over the operands; falling off its end is the return from \<^verbatim>\<open>main\<close>.\<close>

fun removeFiles :: "'w runtime \<Rightarrow> flagvars \<Rightarrow> string \<Rightarrow> string list \<Rightarrow> 'w state \<Rightarrow> status \<times> 'w state" where
  "removeFiles rt fv targetDir [] st = (Exited 0, st)"
| "removeFiles rt fv targetDir (filepath # files) st =
     (case removeFile rt fv targetDir filepath st of
        Halt s st1 \<Rightarrow> (s, st1)
      | Next st1 \<Rightarrow> removeFiles rt fv targetDir files st1)"

text \<open>\<^verbatim>\<open>main\<close> from the test of \<^verbatim>\<open>-I\<close> with more than three operands on.\<close>

definition removeAll :: "'w runtime \<Rightarrow> flagvars \<Rightarrow> string \<Rightarrow> string list \<Rightarrow> 'w state \<Rightarrow> status \<times> 'w state" where
  "removeAll rt fv targetDir files st =
     (let filesCount = length files in
      if nonintrusiveInteractiveFlag fv \<and> filesCount > 3
      then (case getUserConfirmation rt (''remove '' @ decimal filesCount @ '' files?'') st of
              (confirmed, st1) \<Rightarrow>
                if \<not> confirmed then (Exited 0, st1)
                else removeFiles rt fv targetDir files st1)
      else removeFiles rt fv targetDir files st)"

definition main :: "'w runtime \<Rightarrow> string list \<Rightarrow> 'w state \<Rightarrow> status \<times> 'w state" where
  "main rt args st =
     (case getTargetRmDir rt st of
        (Inl s, st1) \<Rightarrow> (s, st1)
      | (Inr targetDir, st1) \<Rightarrow>
          (case parseArgs args st1 of
             (Inl s, st2) \<Rightarrow> (s, st2)
           | (Inr (flags, files), st2) \<Rightarrow>
               (let fv = deriveFlags flags in
                if helpFlag fv then (Exited 0, usage st2)
                else removeAll rt fv targetDir files st2)))"

section \<open>A small world to run the program in\<close>

text \<open>
  A table of paths with their modes and the list of the answers still to be scanned.
  As in a file system, the empty path names nothing, a path with trailing slashes names
  the same entry as the path without them when that entry is a directory and nothing
  otherwise, and a rename fails (and changes nothing) when the old path does not exist or
  the new path ends with a slash. \<open>toLowerASCII\<close> is \<^verbatim>\<open>strings.ToLower\<close> on ASCII text.
\<close>

type_synonym table_world = "(string \<times> FileMode) list \<times> string option list"

definition toLowerASCII :: "string \<Rightarrow> string" where
  "toLowerASCII s =
     map (\<lambda>c. if 65 \<le> (of_char c :: nat) \<and> (of_char c :: nat) \<le> 90
              then char_of ((of_char c :: nat) + 32) else c) s"

definition table_stat :: "table_world \<Rightarrow> string \<Rightarrow> string + FileMode" where
  "table_stat w p =
     (if p = [] then Inl (''stat '' @ p @ '': no such file or directory'')
      else (case map_of (fst w) (TrimRight p ''/'') of
              None \<Rightarrow> Inl (''stat '' @ p @ '': no such file or directory'')
            | Some m \<Rightarrow>
                if TrimRight p ''/'' \<noteq> p \<and> \<not> FileMode_IsDir m
                then Inl (''stat '' @ p @ '': not a directory'')
                else Inr m))"

definition table_rename :: "table_world \<Rightarrow> string \<Rightarrow> string \<Rightarrow> table_world" where
  "table_rename w old new =
     (case map_of (fst w) old of
        None \<Rightarrow> w
      | Some m \<Rightarrow>
          if TrimRight new ''/'' \<noteq> new then w
          else ((new, m) # filter (\<lambda>e. fst e \<noteq> old \<and> fst e \<noteq> new) (fst w), snd w))"

definition table_scanln :: "table_world \<Rightarrow> string option \<times> table_world" where
  "table_scanln w = (case snd w of [] \<Rightarrow> (None, w) | r # rs \<Rightarrow> (r, (fst w, rs)))"

definition table_rt :: "table_world runtime" where
  "table_rt =
     \<lparr> UserHomeDir = (\<lambda>w. Inr ''/home/u''),
       Stat = table_stat,
       Rename = table_rename,
       Scanln = table_scanln,
       ToLower = toLowerASCII \<rparr>"

section \<open>The argument classifier\<close>

lemma In_set: "In x xs = (x \<in> set xs)"
  by (induction xs) auto

lemma marker_invalid: "\<not> In ''--'' VALIDARGS"
  by (simp add: VALIDARGS_def)

lemma parseArgs_loop_seen:
  "parseArgs_loop True flags files args = (flags, files @ filter (\<lambda>a. a \<noteq> ''--'') args)"
  by (induction args arbitrary: files) simp_all

lemma parseArgs_loop_unseen:
  "parseArgs_loop False flags files args =
     (flags @ filter (\<lambda>a. In a VALIDARGS) (takeWhile (\<lambda>a. a \<noteq> ''--'') args),
      files @ filter (\<lambda>a. \<not> In a VALIDARGS) (takeWhile (\<lambda>a. a \<noteq> ''--'') args)
            @ filter (\<lambda>a. a \<noteq> ''--'') (dropWhile (\<lambda>a. a \<noteq> ''--'') args))"
  by (induction args arbitrary: flags files) (simp_all add: parseArgs_loop_seen)

lemma takeWhile_marker_append:
  "takeWhile (\<lambda>a. a \<noteq> ''--'') (pre @ ''--'' # post) = takeWhile (\<lambda>a. a \<noteq> ''--'') pre"
  by (induction pre) simp_all

lemma takeWhile_no_marker:
  "''--'' \<notin> set pre \<Longrightarrow>
   takeWhile (\<lambda>a. a \<noteq> ''--'') (pre @ rest) = pre @ takeWhile (\<lambda>a. a \<noteq> ''--'') rest"
  by (induction pre) auto

lemma dropWhile_no_marker:
  "''--'' \<notin> set pre \<Longrightarrow>
   dropWhile (\<lambda>a. a \<noteq> ''--'') (pre @ rest) = dropWhile (\<lambda>a. a \<noteq> ''--'') rest"
  by (induction pre) auto

text \<open>
  C2. Whatever follows an end-of-options marker \<^verbatim>\<open>--\<close> has no part in the flags: the flags
  of a token sequence are the recognised tokens among those in front of its first marker,
  in order; the operands are the other tokens in front of the first marker, followed by
  every token behind it that is not a marker itself. The marker is in neither list, and
  \<^verbatim>\<open>["--", "-f"]\<close> gives no flag and the one operand \<^verbatim>\<open>-f\<close>.
\<close>

theorem parseArgs_marker_ends_flags:
  "fst (parseArgs_loop False [] [] (pre @ ''--'' # post)) = fst (parseArgs_loop False [] [] pre)
   \<and> parseArgs args st =
       (if args = [] then (Inl (Exited 1), usage st)
        else (Inr (filter (\<lambda>a. In a VALIDARGS) (takeWhile (\<lambda>a. a \<noteq> ''--'') args),
                   filter (\<lambda>a. \<not> In a VALIDARGS) (takeWhile (\<lambda>a. a \<noteq> ''--'') args)
                     @ filter (\<lambda>a. a \<noteq> ''--'') (dropWhile (\<lambda>a. a \<noteq> ''--'') args)), st))
   \<and> ''--'' \<notin> set (fst (parseArgs_loop False [] [] args))
   \<and> ''--'' \<notin> set (snd (parseArgs_loop False [] [] args))
   \<and> parseArgs [''--'', ''-f''] st = (Inr ([], [''-f'']), st)"
proof -
  have a: "fst (parseArgs_loop False [] [] (pre @ ''--'' # post)) = fst (parseArgs_loop False [] [] pre)"
    by (simp add: parseArgs_loop_unseen takeWhile_marker_append)
  have b: "parseArgs args st =
       (if args = [] then (Inl (Exited 1), usage st)
        else (Inr (filter (\<lambda>a. In a VALIDARGS) (takeWhile (\<lambda>a. a \<noteq> ''--'') args),
                   filter (\<lambda>a. \<not> In a VALIDARGS) (takeWhile (\<lambda>a. a \<noteq> ''--'') args)
                     @ filter (\<lambda>a. a \<noteq> ''--'') (dropWhile (\<lambda>a. a \<noteq> ''--'') args)), st))"
    by (simp add: parseArgs_def parseArgs_loop_unseen)
  have c: "''--'' \<notin> set (fst (parseArgs_loop False [] [] args))"
    using marker_invalid by (auto simp: parseArgs_loop_unseen)
  have d: "''--'' \<notin> set (snd (parseArgs_loop False [] [] args))"
    by (auto simp: parseArgs_loop_unseen dest: set_takeWhileD)
  have e: "parseArgs [''--'', ''-f''] st = (Inr ([], [''-f'']), st)"
    by (simp add: parseArgs_def)
  from a b c d e show ?thesis by blast
qed

subsection \<open>Repeated flags\<close>

lemma deriveFlags_set: "set flags = set flags' \<Longrightarrow> deriveFlags flags = deriveFlags flags'"
  by (simp add: deriveFlags_def In_set)

lemma main_depends:
  assumes "a \<noteq> []" "b \<noteq> []"
    and "deriveFlags (fst (parseArgs_loop False [] [] a)) = deriveFlags (fst (parseArgs_loop False [] [] b))"
    and "snd (parseArgs_loop False [] [] a) = snd (parseArgs_loop False [] [] b)"
  shows "main rt a st = main rt b st"
proof -
  obtain fa xa where pa: "parseArgs_loop False [] [] a = (fa, xa)"
    by (cases "parseArgs_loop False [] [] a")
  obtain fb xb where pb: "parseArgs_loop False [] [] b = (fb, xb)"
    by (cases "parseArgs_loop False [] [] b")
  from assms pa pb have "deriveFlags fa = deriveFlags fb" "xa = xb" by simp_all
  with assms(1,2) pa pb show ?thesis
    by (simp add: main_def parseArgs_def split: prod.splits sum.splits)
qed

text \<open>
  C9. A recognised flag given again, any number of times, in front of any marker \<^verbatim>\<open>--\<close>,
  changes nothing: the seven booleans derived from the flags are the same with and
  without the further occurrences, the operands are the same, and so is the whole run of
  \<^verbatim>\<open>main\<close> (its exit status, its output and its calls).
\<close>

theorem duplicate_flags_collapse:
  assumes "In f VALIDARGS" and "''--'' \<notin> set pre" and "''--'' \<notin> set mid"
  shows "deriveFlags (fst (parseArgs_loop False [] [] (pre @ f # mid @ replicate n f @ post)))
           = deriveFlags (fst (parseArgs_loop False [] [] (pre @ f # mid @ post)))
         \<and> snd (parseArgs_loop False [] [] (pre @ f # mid @ replicate n f @ post))
           = snd (parseArgs_loop False [] [] (pre @ f # mid @ post))
         \<and> main rt (pre @ f # mid @ replicate n f @ post) st = main rt (pre @ f # mid @ post) st"
proof -
  let ?a = "pre @ f # mid @ replicate n f @ post" and ?b = "pre @ f # mid @ post"
  let ?front = "pre @ f # mid @ replicate n f"
  from assms(1) marker_invalid have f: "f \<noteq> ''--''" by auto
  with assms have front: "''--'' \<notin> set ?front" by auto
  have a: "?a = ?front @ post" by simp
  have twa: "takeWhile (\<lambda>a. a \<noteq> ''--'') ?a = ?front @ takeWhile (\<lambda>a. a \<noteq> ''--'') post"
    unfolding a using front by (rule takeWhile_no_marker)
  have twb: "takeWhile (\<lambda>a. a \<noteq> ''--'') ?b = pre @ f # mid @ takeWhile (\<lambda>a. a \<noteq> ''--'') post"
    using assms f by (simp add: takeWhile_no_marker)
  have dwa: "dropWhile (\<lambda>a. a \<noteq> ''--'') ?a = dropWhile (\<lambda>a. a \<noteq> ''--'') post"
    unfolding a using front by (rule dropWhile_no_marker)
  have dwb: "dropWhile (\<lambda>a. a \<noteq> ''--'') ?b = dropWhile (\<lambda>a. a \<noteq> ''--'') post"
    using assms f by (simp add: dropWhile_no_marker)
  have "set (fst (parseArgs_loop False [] [] ?a)) = set (fst (parseArgs_loop False [] [] ?b))"
    using assms(1) by (auto simp: parseArgs_loop_unseen twa twb)
  then have flags: "deriveFlags (fst (parseArgs_loop False [] [] ?a))
      = deriveFlags (fst (parseArgs_loop False [] [] ?b))"
    by (rule deriveFlags_set)
  have files: "snd (parseArgs_loop False [] [] ?a) = snd (parseArgs_loop False [] [] ?b)"
    using assms(1) by (simp add: parseArgs_loop_unseen twa twb dwa dwb)
  have "main rt ?a st = main rt ?b st"
    using flags files by (intro main_depends) simp_all
  with flags files show ?thesis by blast
qed

theorem duplicate_flags_collapse_witness:
  "In ''-f'' VALIDARGS \<and> ''--'' \<notin> set [''-v''] \<and> ''--'' \<notin> set [''a.txt'']
   \<and> deriveFlags (fst (parseArgs_loop False [] []
         [''-v'', ''-f'', ''a.txt'', ''-f'', ''-f'', ''--'', ''-f'']))
       = deriveFlags [''-v'', ''-f'']
   \<and> snd (parseArgs_loop False [] [] [''-v'', ''-f'', ''a.txt'', ''-f'', ''-f'', ''--'', ''-f''])
       = [''a.txt'', ''-f'']"
  using duplicate_flags_collapse [where f = "''-f''" and pre = "[''-v'']" and mid = "[''a.txt'']"
      and n = "Suc (Suc 0)" and post = "[''--'', ''-f'']" and rt = table_rt]
  by (simp add: VALIDARGS_def deriveFlags_def)

section \<open>The interaction helper\<close>

text \<open>
  C8. \<^verbatim>\<open>getUserConfirmation\<close> prints the message it is given (one \<open>Prompt\<close> event, whose
  text is the message), consumes one scan of the input, and answers true exactly when
  the lower-cased token is one of y, yes, yea, yeah, da, si, letsgo. When the scan stored
  nothing (empty input, read failure) the token is the empty string and the answer is
  false, \<^verbatim>\<open>strings.ToLower\<close> mapping the empty string to itself. The function has no
  failing branch: it returns a boolean and the next state on every input.
\<close>

theorem getUserConfirmation_answer:
  "fst (getUserConfirmation rt msg st)
     = (ToLower rt (case fst (Scanln rt (world st)) of None \<Rightarrow> [] | Some tok \<Rightarrow> tok)
          \<in> {''y'', ''yes'', ''yea'', ''yeah'', ''da'', ''si'', ''letsgo''})
   \<and> snd (getUserConfirmation rt msg st)
     = st\<lparr>world := snd (Scanln rt (world st)), trace := trace st @ [Prompt msg]\<rparr>
   \<and> render (Prompt msg) = msg
   \<and> (fst (Scanln rt (world st)) = None \<and> ToLower rt [] = [] \<longrightarrow>
        \<not> fst (getUserConfirmation rt msg st))"
  by (simp add: getUserConfirmation_def emit_def affirmative_def Let_def)

theorem getUserConfirmation_answer_witness:
  "fst (Scanln table_rt (world \<lparr>world = ([], []), trace = []\<rparr>)) = None
   \<and> ToLower table_rt [] = []
   \<and> \<not> fst (getUserConfirmation table_rt ''remove a?'' \<lparr>world = ([], []), trace = []\<rparr>)
   \<and> fst (getUserConfirmation table_rt ''remove a?'' \<lparr>world = ([], [Some ''YES'']), trace = []\<rparr>)
   \<and> \<not> fst (getUserConfirmation table_rt ''remove a?'' \<lparr>world = ([], [Some ''no'']), trace = []\<rparr>)"
proof -
  have lower: "toLowerASCII ''YES'' = ''yes''" "toLowerASCII ''no'' = ''no''" "toLowerASCII [] = []"
    by code_simp+
  show ?thesis
    using getUserConfirmation_answer [where rt = table_rt and msg = "''remove a?''"
        and st = "\<lparr>world = ([], []), trace = []\<rparr>"]
      getUserConfirmation_answer [where rt = table_rt and msg = "''remove a?''"
        and st = "\<lparr>world = ([], [Some ''YES'']), trace = []\<rparr>"]
      getUserConfirmation_answer [where rt = table_rt and msg = "''remove a?''"
        and st = "\<lparr>world = ([], [Some ''no'']), trace = []\<rparr>"]
    by (simp add: table_rt_def table_scanln_def lower)
qed

section \<open>The deletion policy\<close>

subsection \<open>The states after the library calls\<close>

lemma IsDir_state: "snd (IsDir rt filepath st) = emit (StatCall filepath) st"
  by (simp add: IsDir_def split: sum.splits)

lemma IsReadOnly_state: "snd (IsReadOnly rt filepath st) = emit (StatCall filepath) st"
  by (simp add: IsReadOnly_def split: sum.splits)

lemma getUserConfirmation_state:
  "snd (getUserConfirmation rt msg st)
     = st\<lparr>world := snd (Scanln rt (world st)), trace := trace st @ [Prompt msg]\<rparr>"
  by (simp add: getUserConfirmation_def emit_def Let_def)

text \<open>
  \<^verbatim>\<open>main\<close> hands over to the policy once the target directory is resolved, the argument
  list is not empty and no help flag is given.
\<close>

lemma main_runs_policy:
  assumes "getTargetRmDir rt st = (Inr targetDir, st1)" and "args \<noteq> []"
    and "\<not> helpFlag (deriveFlags (fst (parseArgs_loop False [] [] args)))"
  shows "main rt args st
    = removeAll rt (deriveFlags (fst (parseArgs_loop False [] [] args))) targetDir
        (snd (parseArgs_loop False [] [] args)) st1"
  using assms by (simp add: main_def parseArgs_def case_prod_beta)

subsection \<open>The confirmation in front of the loop\<close>

text \<open>
  C3. With \<^verbatim>\<open>-I\<close> and more than three operands, the run starts with the one prompt
  "remove N files?", N the number of operands in decimal. On a negative answer the run
  ends there with status 0: the prompt is the only event added to the trace, so no
  operand is looked up with \<^verbatim>\<open>os.Stat\<close>, prompted for or renamed. On a positive answer the
  loop over the operands starts after the prompt. No condition is put on what the
  operands are. Without \<^verbatim>\<open>-I\<close>, or with three operands or fewer, the loop starts at once.
\<close>

theorem batch_confirmation:
  "(nonintrusiveInteractiveFlag fv \<and> 3 < length files
      \<and> \<not> fst (getUserConfirmation rt (''remove '' @ decimal (length files) @ '' files?'') st) \<longrightarrow>
      removeAll rt fv t files st =
        (Exited 0, st\<lparr>world := snd (Scanln rt (world st)),
                      trace := trace st @ [Prompt (''remove '' @ decimal (length files) @ '' files?'')]\<rparr>))
   \<and> (nonintrusiveInteractiveFlag fv \<and> 3 < length files
      \<and> fst (getUserConfirmation rt (''remove '' @ decimal (length files) @ '' files?'') st) \<longrightarrow>
      removeAll rt fv t files st =
        removeFiles rt fv t files
          (st\<lparr>world := snd (Scanln rt (world st)),
              trace := trace st @ [Prompt (''remove '' @ decimal (length files) @ '' files?'')]\<rparr>))
   \<and> (\<not> (nonintrusiveInteractiveFlag fv \<and> 3 < length files) \<longrightarrow>
      removeAll rt fv t files st = removeFiles rt fv t files st)"
  using getUserConfirmation_state [of rt "''remove '' @ decimal (length files) @ '' files?''" st]
  by (auto simp: removeAll_def Let_def split: prod.splits)

theorem batch_confirmation_witness:
  "((nonintrusiveInteractiveFlag (deriveFlags [''-I'']) \<and> 3 < length [''a'', ''b'', ''c'', ''d'', ''e'']
      \<and> \<not> fst (getUserConfirmation table_rt (''remove '' @ decimal (length [''a'', ''b'', ''c'', ''d'', ''e'']) @ '' files?'')
          \<lparr>world = (([(''a'', 420), (''d'', 2147484141)], [Some ''n'']) :: table_world), trace = []\<rparr>))
    \<and> removeAll table_rt (deriveFlags [''-I'']) ''/tmp'' [''a'', ''b'', ''c'', ''d'', ''e'']
        \<lparr>world = (([(''a'', 420), (''d'', 2147484141)], [Some ''n'']) :: table_world), trace = []\<rparr>
      = (Exited 0, \<lparr>world = ([(''a'', 420), (''d'', 2147484141)], []), trace = [Prompt ''remove 5 files?'']\<rparr>))
   \<and> ((nonintrusiveInteractiveFlag (deriveFlags [''-I'']) \<and> 3 < length [''a'', ''b'', ''c'', ''d'', ''e'']
      \<and> fst (getUserConfirmation table_rt (''remove '' @ decimal (length [''a'', ''b'', ''c'', ''d'', ''e'']) @ '' files?'')
          \<lparr>world = (([(''a'', 420), (''d'', 2147484141)], [Some ''Yes'']) :: table_world), trace = []\<rparr>))
    \<and> removeAll table_rt (deriveFlags [''-I'']) ''/tmp'' [''a'', ''b'', ''c'', ''d'', ''e'']
        \<lparr>world = (([(''a'', 420), (''d'', 2147484141)], [Some ''Yes'']) :: table_world), trace = []\<rparr>
      = removeFiles table_rt (deriveFlags [''-I'']) ''/tmp'' [''a'', ''b'', ''c'', ''d'', ''e'']
          \<lparr>world = ([(''a'', 420), (''d'', 2147484141)], []), trace = [Prompt ''remove 5 files?'']\<rparr>)
   \<and> ((\<not> (nonintrusiveInteractiveFlag (deriveFlags [''-I'']) \<and> 3 < length [''a'', ''b'', ''c'']))
    \<and> removeAll table_rt (deriveFlags [''-I'']) ''/tmp'' [''a'', ''b'', ''c'']
        \<lparr>world = (([(''a'', 420), (''d'', 2147484141)], [Some ''n'']) :: table_world), trace = []\<rparr>
      = removeFiles table_rt (deriveFlags [''-I'']) ''/tmp'' [''a'', ''b'', ''c'']
          \<lparr>world = (([(''a'', 420), (''d'', 2147484141)], [Some ''n'']) :: table_world), trace = []\<rparr>)"
proof -
  have hyp1: "nonintrusiveInteractiveFlag (deriveFlags [''-I'']) \<and> 3 < length [''a'', ''b'', ''c'', ''d'', ''e'']
      \<and> \<not> fst (getUserConfirmation table_rt (''remove '' @ decimal (length [''a'', ''b'', ''c'', ''d'', ''e'']) @ '' files?'')
          \<lparr>world = (([(''a'', 420), (''d'', 2147484141)], [Some ''n'']) :: table_world), trace = []\<rparr>)"
    by code_simp
  have ev1: "\<lparr>world = (([(''a'', 420), (''d'', 2147484141)], [Some ''n'']) :: table_world), trace = []\<rparr>\<lparr>world := snd (Scanln table_rt (world \<lparr>world = (([(''a'', 420), (''d'', 2147484141)], [Some ''n'']) :: table_world), trace = []\<rparr>)),
        trace := trace \<lparr>world = (([(''a'', 420), (''d'', 2147484141)], [Some ''n'']) :: table_world), trace = []\<rparr> @ [Prompt (''remove '' @ decimal (length [''a'', ''b'', ''c'', ''d'', ''e'']) @ '' files?'')]\<rparr>
      = \<lparr>world = ([(''a'', 420), (''d'', 2147484141)], []), trace = [Prompt ''remove 5 files?'']\<rparr>"
    by code_simp
  have hyp2: "nonintrusiveInteractiveFlag (deriveFlags [''-I'']) \<and> 3 < length [''a'', ''b'', ''c'', ''d'', ''e'']
      \<and> fst (getUserConfirmation table_rt (''remove '' @ decimal (length [''a'', ''b'', ''c'', ''d'', ''e'']) @ '' files?'')
          \<lparr>world = (([(''a'', 420), (''d'', 2147484141)], [Some ''Yes'']) :: table_world), trace = []\<rparr>)"
    by code_simp
  have ev2: "\<lparr>world = (([(''a'', 420), (''d'', 2147484141)], [Some ''Yes'']) :: table_world), trace = []\<rparr>\<lparr>world := snd (Scanln table_rt (world \<lparr>world = (([(''a'', 420), (''d'', 2147484141)], [Some ''Yes'']) :: table_world), trace = []\<rparr>)),
        trace := trace \<lparr>world = (([(''a'', 420), (''d'', 2147484141)], [Some ''Yes'']) :: table_world), trace = []\<rparr> @ [Prompt (''remove '' @ decimal (length [''a'', ''b'', ''c'', ''d'', ''e'']) @ '' files?'')]\<rparr>
      = \<lparr>world = ([(''a'', 420), (''d'', 2147484141)], []), trace = [Prompt ''remove 5 files?'']\<rparr>"
    by code_simp
  have hyp3: "\<not> (nonintrusiveInteractiveFlag (deriveFlags [''-I'']) \<and> 3 < length [''a'', ''b'', ''c''])"
    by code_simp
  note run1 = batch_confirmation [where t = "''/tmp''", THEN conjunct1, THEN mp, OF hyp1]
  note run2 = batch_confirmation [where t = "''/tmp''", THEN conjunct2, THEN conjunct1, THEN mp, OF hyp2]
  note run3 = batch_confirmation [where rt = table_rt and t = "''/tmp''"
      and st = "\<lparr>world = (([(''a'', 420), (''d'', 2147484141)], [Some ''n'']) :: table_world), trace = []\<rparr>",
      THEN conjunct2, THEN conjunct2, THEN mp, OF hyp3]
  show ?thesis
    by (rule conjI [OF conjI [OF hyp1 run1 [unfolded ev1]]
          conjI [OF conjI [OF hyp2 run2 [unfolded ev2]] conjI [OF hyp3 run3]]])
qed

subsection \<open>Directories\<close>

text \<open>No pass through the loop body prints the directory rejection when \<^verbatim>\<open>-r\<close> is set.\<close>

lemma moveFile_events:
  "\<exists>evs. trace (step_state (moveFile rt fv filepath filename dest st)) = trace st @ evs
         \<and> (\<forall>q. DirRejection q \<notin> set evs)"
  by (auto simp: moveFile_def IsReadOnly_def emit_def Let_def split: sum.splits)

lemma confirmAndMove_events:
  "\<exists>evs. trace (step_state (confirmAndMove rt fv t filepath st)) = trace st @ evs
         \<and> (\<forall>q. DirRejection q \<notin> set evs)"
proof (cases "interactiveFlag fv")
  case False
  then show ?thesis
    using moveFile_events [of rt fv filepath "displayName filepath" "destination t filepath" st]
    by (simp add: confirmAndMove_def Let_def)
next
  case True
  let ?msg = "''remove '' @ filepath @ ''?''"
  let ?st1 = "snd (getUserConfirmation rt ?msg st)"
  have tr: "trace ?st1 = trace st @ [Prompt ?msg]"
    by (simp add: getUserConfirmation_state)
  show ?thesis
  proof (cases "fst (getUserConfirmation rt ?msg st)")
    case False
    with True have "confirmAndMove rt fv t filepath st = Next ?st1"
      by (simp add: confirmAndMove_def Let_def case_prod_beta)
    with tr show ?thesis by simp
  next
    case yes: True
    with True have eq: "confirmAndMove rt fv t filepath st
        = moveFile rt fv filepath (displayName filepath) (destination t filepath) ?st1"
      by (simp add: confirmAndMove_def Let_def case_prod_beta)
    obtain evs where "trace (step_state (confirmAndMove rt fv t filepath st)) = trace ?st1 @ evs"
        and no: "\<forall>q. DirRejection q \<notin> set evs"
      using moveFile_events [of rt fv filepath "displayName filepath" "destination t filepath" ?st1] eq
      by auto
    with tr have "trace (step_state (confirmAndMove rt fv t filepath st)) = trace st @ (Prompt ?msg # evs)"
      by simp
    moreover from no have "\<forall>q. DirRejection q \<notin> set (Prompt ?msg # evs)" by simp
    ultimately show ?thesis by blast
  qed
qed

lemma removeFile_events:
  assumes "recursiveFlag fv"
  shows "\<exists>evs. trace (step_state (removeFile rt fv t filepath st)) = trace st @ evs
         \<and> (\<forall>q. DirRejection q \<notin> set evs)"
proof (cases "Stat rt (world st) filepath")
  case (Inl err)
  then show ?thesis by (simp add: removeFile_def IsDir_def emit_def)
next
  case (Inr fi)
  let ?st1 = "emit (StatCall filepath) st"
  let ?msg = "''recursively remove '' @ filepath @ ''?''"
  let ?st2 = "snd (getUserConfirmation rt ?msg ?st1)"
  have tr2: "trace ?st2 = trace st @ [StatCall filepath, Prompt ?msg]"
    by (simp add: getUserConfirmation_state emit_def)
  consider (ask_no) "FileMode_IsDir fi \<and> nonintrusiveInteractiveFlag fv"
      "\<not> fst (getUserConfirmation rt ?msg ?st1)"
    | (ask_yes) "FileMode_IsDir fi \<and> nonintrusiveInteractiveFlag fv"
      "fst (getUserConfirmation rt ?msg ?st1)"
    | (quiet) "\<not> (FileMode_IsDir fi \<and> nonintrusiveInteractiveFlag fv)"
    by blast
  then show ?thesis
  proof cases
    case ask_no
    with Inr assms have "removeFile rt fv t filepath st = Next ?st2"
      by (simp add: removeFile_def IsDir_def case_prod_beta)
    with tr2 show ?thesis by simp
  next
    case ask_yes
    with Inr assms have eq: "removeFile rt fv t filepath st = confirmAndMove rt fv t filepath ?st2"
      by (simp add: removeFile_def IsDir_def case_prod_beta)
    obtain evs where "trace (step_state (removeFile rt fv t filepath st)) = trace ?st2 @ evs"
        and no: "\<forall>q. DirRejection q \<notin> set evs"
      using confirmAndMove_events [of rt fv t filepath ?st2] eq by auto
    with tr2 have "trace (step_state (removeFile rt fv t filepath st))
        = trace st @ (StatCall filepath # Prompt ?msg # evs)"
      by simp
    moreover from no have "\<forall>q. DirRejection q \<notin> set (StatCall filepath # Prompt ?msg # evs)"
      by simp
    ultimately show ?thesis by blast
  next
    case quiet
    with Inr assms have eq: "removeFile rt fv t filepath st = confirmAndMove rt fv t filepath ?st1"
      by (auto simp: removeFile_def IsDir_def)
    obtain evs where "trace (step_state (removeFile rt fv t filepath st)) = trace ?st1 @ evs"
        and no: "\<forall>q. DirRejection q \<notin> set evs"
      using confirmAndMove_events [of rt fv t filepath ?st1] eq by auto
    then have "trace (step_state (removeFile rt fv t filepath st)) = trace st @ (StatCall filepath # evs)"
      by (simp add: emit_def)
    moreover from no have "\<forall>q. DirRejection q \<notin> set (StatCall filepath # evs)" by simp
    ultimately show ?thesis by blast
  qed
qed

lemma removeFiles_events:
  assumes "recursiveFlag fv"
  shows "\<exists>evs. trace (snd (removeFiles rt fv t files st)) = trace st @ evs
         \<and> (\<forall>q. DirRejection q \<notin> set evs)"
proof (induction files arbitrary: st)
  case Nil
  show ?case by simp
next
  case (Cons p files)
  obtain evs where evs: "trace (step_state (removeFile rt fv t p st)) = trace st @ evs"
      "\<forall>q. DirRejection q \<notin> set evs"
    using removeFile_events [OF assms, of rt t p st] by blast
  show ?case
  proof (cases "removeFile rt fv t p st")
    case (Halt s st1)
    with evs show ?thesis by auto
  next
    case (Next st1)
    obtain evs' where evs': "trace (snd (removeFiles rt fv t files st1)) = trace st1 @ evs'"
        "\<forall>q. DirRejection q \<notin> set evs'"
      using Cons.IH [of st1] by blast
    from Next evs evs' have "trace (snd (removeFiles rt fv t (p # files) st)) = trace st @ (evs @ evs')"
      by simp
    moreover from evs(2) evs'(2) have "\<forall>q. DirRejection q \<notin> set (evs @ evs')" by simp
    ultimately show ?thesis by blast
  qed
qed

text \<open>
  C4. An operand that \<^verbatim>\<open>IsDir\<close> reports as a directory, with neither \<^verbatim>\<open>-r\<close>/\<^verbatim>\<open>-R\<close> nor
  \<^verbatim>\<open>-d\<close>: the pass prints "srm: <path>: is a directory" and the process exits with
  status 1. The lookup and the message are the only events, so nothing is renamed, and
  the operands behind it are never reached. With \<^verbatim>\<open>-r\<close> the run from that operand on
  adds no rejection of a directory to the trace.
\<close>

theorem directory_rejection:
  assumes "fst (IsDir rt filepath st) = Inr True"
  shows "(\<not> recursiveFlag fv \<and> \<not> directoryFlag fv \<longrightarrow>
            removeFile rt fv t filepath st
              = Halt (Exited 1) (st\<lparr>trace := trace st @ [StatCall filepath, DirRejection filepath]\<rparr>)
            \<and> removeFiles rt fv t (filepath # rest) st
              = (Exited 1, st\<lparr>trace := trace st @ [StatCall filepath, DirRejection filepath]\<rparr>))
         \<and> render (DirRejection filepath) = ''srm: '' @ filepath @ '': is a directory'' @ nl
         \<and> (recursiveFlag fv \<longrightarrow>
              (\<exists>evs. trace (snd (removeFiles rt fv t (filepath # rest) st)) = trace st @ evs
                     \<and> (\<forall>q. DirRejection q \<notin> set evs)))"
proof -
  have a: "\<not> recursiveFlag fv \<and> \<not> directoryFlag fv \<longrightarrow>
            removeFile rt fv t filepath st
              = Halt (Exited 1) (st\<lparr>trace := trace st @ [StatCall filepath, DirRejection filepath]\<rparr>)
            \<and> removeFiles rt fv t (filepath # rest) st
              = (Exited 1, st\<lparr>trace := trace st @ [StatCall filepath, DirRejection filepath]\<rparr>)"
    using assms IsDir_state [of rt filepath st]
    by (cases "IsDir rt filepath st") (auto simp: removeFile_def emit_def)
  have b: "render (DirRejection filepath) = ''srm: '' @ filepath @ '': is a directory'' @ nl"
    by simp
  have c: "recursiveFlag fv \<longrightarrow>
              (\<exists>evs. trace (snd (removeFiles rt fv t (filepath # rest) st)) = trace st @ evs
                     \<and> (\<forall>q. DirRejection q \<notin> set evs))"
    using removeFiles_events [of fv rt t "filepath # rest" st] by blast
  from a b c show ?thesis by blast
qed

theorem directory_rejection_witness:
  "fst (IsDir table_rt ''d'' \<lparr>world = (([(''d'', 2147484141), (''a'', 420)], []) :: table_world), trace = []\<rparr>) = Inr True
   \<and> ((\<not> recursiveFlag (deriveFlags []) \<and> \<not> directoryFlag (deriveFlags []))
    \<and> removeFile table_rt (deriveFlags []) ''/tmp'' ''d'' \<lparr>world = (([(''d'', 2147484141), (''a'', 420)], []) :: table_world), trace = []\<rparr>
        = Halt (Exited 1) \<lparr>world = ([(''d'', 2147484141), (''a'', 420)], []), trace = [StatCall ''d'', DirRejection ''d'']\<rparr>
    \<and> removeFiles table_rt (deriveFlags []) ''/tmp'' [''d'', ''a''] \<lparr>world = (([(''d'', 2147484141), (''a'', 420)], []) :: table_world), trace = []\<rparr>
        = (Exited 1, \<lparr>world = ([(''d'', 2147484141), (''a'', 420)], []), trace = [StatCall ''d'', DirRejection ''d'']\<rparr>))
   \<and> (recursiveFlag (deriveFlags [''-r''])
    \<and> (\<exists>evs. trace (snd (removeFiles table_rt (deriveFlags [''-r'']) ''/tmp'' [''d'', ''a'']
          \<lparr>world = (([(''d'', 2147484141), (''a'', 420)], []) :: table_world), trace = []\<rparr>)) = trace \<lparr>world = (([(''d'', 2147484141), (''a'', 420)], []) :: table_world), trace = []\<rparr> @ evs
        \<and> (\<forall>q. DirRejection q \<notin> set evs)))"
proof -
  have dir: "fst (IsDir table_rt ''d'' \<lparr>world = (([(''d'', 2147484141), (''a'', 420)], []) :: table_world), trace = []\<rparr>) = Inr True"
    by code_simp
  have hyp1: "\<not> recursiveFlag (deriveFlags []) \<and> \<not> directoryFlag (deriveFlags [])"
    by code_simp
  have ev1: "\<lparr>world = (([(''d'', 2147484141), (''a'', 420)], []) :: table_world), trace = []\<rparr>\<lparr>trace := trace \<lparr>world = (([(''d'', 2147484141), (''a'', 420)], []) :: table_world), trace = []\<rparr> @ [StatCall ''d'', DirRejection ''d'']\<rparr>
      = \<lparr>world = ([(''d'', 2147484141), (''a'', 420)], []), trace = [StatCall ''d'', DirRejection ''d'']\<rparr>"
    by code_simp
  have hyp2: "recursiveFlag (deriveFlags [''-r''])"
    by code_simp
  note run1 = directory_rejection [where fv = "deriveFlags []" and t = "''/tmp''" and rest = "[''a'']",
      OF dir, THEN conjunct1, THEN mp, OF hyp1]
  note run2 = directory_rejection [where fv = "deriveFlags [''-r'']" and t = "''/tmp''" and rest = "[''a'']",
      OF dir, THEN conjunct2, THEN conjunct2, THEN mp, OF hyp2]
  show ?thesis
    by (rule conjI [OF dir conjI [OF conjI [OF hyp1 run1 [unfolded ev1]] conjI [OF hyp2 run2]]])
qed

text \<open>
  C6. A directory operand under \<^verbatim>\<open>-I\<close> and \<^verbatim>\<open>-r\<close>: the pass asks "recursively remove
  <path>?". On a negative answer it ends there and the loop goes on with the next
  operand, in the state after the prompt: no rename, no exit. On a positive answer the
  pass goes on with the rest of the loop body.
\<close>

theorem recursive_prompt:
  assumes "fst (IsDir rt filepath st) = Inr True"
    and "nonintrusiveInteractiveFlag fv" and "recursiveFlag fv"
  shows "(\<not> fst (getUserConfirmation rt (''recursively remove '' @ filepath @ ''?'') (emit (StatCall filepath) st)) \<longrightarrow>
            removeFile rt fv t filepath st
              = Next (st\<lparr>world := snd (Scanln rt (world st)),
                         trace := trace st @ [StatCall filepath, Prompt (''recursively remove '' @ filepath @ ''?'')]\<rparr>)
            \<and> removeFiles rt fv t (filepath # rest) st
              = removeFiles rt fv t rest
                  (st\<lparr>world := snd (Scanln rt (world st)),
                      trace := trace st @ [StatCall filepath, Prompt (''recursively remove '' @ filepath @ ''?'')]\<rparr>))
         \<and> (fst (getUserConfirmation rt (''recursively remove '' @ filepath @ ''?'') (emit (StatCall filepath) st)) \<longrightarrow>
            removeFile rt fv t filepath st
              = confirmAndMove rt fv t filepath
                  (st\<lparr>world := snd (Scanln rt (world st)),
                      trace := trace st @ [StatCall filepath, Prompt (''recursively remove '' @ filepath @ ''?'')]\<rparr>))"
  using assms IsDir_state [of rt filepath st]
    getUserConfirmation_state [of rt "''recursively remove '' @ filepath @ ''?''" "emit (StatCall filepath) st"]
  by (cases "IsDir rt filepath st") (auto simp: removeFile_def emit_def split: prod.splits)

theorem recursive_prompt_witness:
  "(fst (IsDir table_rt ''d'' \<lparr>world = (([(''d'', 2147484141), (''a'', 420)], [Some ''n'']) :: table_world), trace = []\<rparr>) = Inr True
    \<and> nonintrusiveInteractiveFlag (deriveFlags [''-I'', ''-r'']) \<and> recursiveFlag (deriveFlags [''-I'', ''-r'']))
   \<and> (\<not> fst (getUserConfirmation table_rt (''recursively remove '' @ ''d'' @ ''?'')
        (emit (StatCall ''d'') \<lparr>world = (([(''d'', 2147484141), (''a'', 420)], [Some ''n'']) :: table_world), trace = []\<rparr>))
    \<and> removeFile table_rt (deriveFlags [''-I'', ''-r'']) ''/tmp'' ''d'' \<lparr>world = (([(''d'', 2147484141), (''a'', 420)], [Some ''n'']) :: table_world), trace = []\<rparr>
        = Next \<lparr>world = ([(''d'', 2147484141), (''a'', 420)], []), trace = [StatCall ''d'', Prompt ''recursively remove d?'']\<rparr>
    \<and> removeFiles table_rt (deriveFlags [''-I'', ''-r'']) ''/tmp'' [''d'', ''a''] \<lparr>world = (([(''d'', 2147484141), (''a'', 420)], [Some ''n'']) :: table_world), trace = []\<rparr>
        = removeFiles table_rt (deriveFlags [''-I'', ''-r'']) ''/tmp'' [''a'']
            \<lparr>world = ([(''d'', 2147484141), (''a'', 420)], []), trace = [StatCall ''d'', Prompt ''recursively remove d?'']\<rparr>)
   \<and> (fst (IsDir table_rt ''d'' \<lparr>world = (([(''d'', 2147484141), (''a'', 420)], [Some ''y'']) :: table_world), trace = []\<rparr>) = Inr True
    \<and> fst (getUserConfirmation table_rt (''recursively remove '' @ ''d'' @ ''?'')
        (emit (StatCall ''d'') \<lparr>world = (([(''d'', 2147484141), (''a'', 420)], [Some ''y'']) :: table_world), trace = []\<rparr>))
    \<and> removeFile table_rt (deriveFlags [''-I'', ''-r'']) ''/tmp'' ''d'' \<lparr>world = (([(''d'', 2147484141), (''a'', 420)], [Some ''y'']) :: table_world), trace = []\<rparr>
        = confirmAndMove table_rt (deriveFlags [''-I'', ''-r'']) ''/tmp'' ''d''
            \<lparr>world = ([(''d'', 2147484141), (''a'', 420)], []), trace = [StatCall ''d'', Prompt ''recursively remove d?'']\<rparr>)"
proof -
  have dirn: "fst (IsDir table_rt ''d'' \<lparr>world = (([(''d'', 2147484141), (''a'', 420)], [Some ''n'']) :: table_world), trace = []\<rparr>) = Inr True"
    by code_simp
  have diry: "fst (IsDir table_rt ''d'' \<lparr>world = (([(''d'', 2147484141), (''a'', 420)], [Some ''y'']) :: table_world), trace = []\<rparr>) = Inr True"
    by code_simp
  have batch: "nonintrusiveInteractiveFlag (deriveFlags [''-I'', ''-r''])"
    by code_simp
  have recursive: "recursiveFlag (deriveFlags [''-I'', ''-r''])"
    by code_simp
  have no: "\<not> fst (getUserConfirmation table_rt (''recursively remove '' @ ''d'' @ ''?'')
        (emit (StatCall ''d'') \<lparr>world = (([(''d'', 2147484141), (''a'', 420)], [Some ''n'']) :: table_world), trace = []\<rparr>))"
    by code_simp
  have yes: "fst (getUserConfirmation table_rt (''recursively remove '' @ ''d'' @ ''?'')
        (emit (StatCall ''d'') \<lparr>world = (([(''d'', 2147484141), (''a'', 420)], [Some ''y'']) :: table_world), trace = []\<rparr>))"
    by code_simp
  have evn: "\<lparr>world = (([(''d'', 2147484141), (''a'', 420)], [Some ''n'']) :: table_world), trace = []\<rparr>\<lparr>world := snd (Scanln table_rt (world \<lparr>world = (([(''d'', 2147484141), (''a'', 420)], [Some ''n'']) :: table_world), trace = []\<rparr>)),
        trace := trace \<lparr>world = (([(''d'', 2147484141), (''a'', 420)], [Some ''n'']) :: table_world), trace = []\<rparr> @ [StatCall ''d'', Prompt (''recursively remove '' @ ''d'' @ ''?'')]\<rparr>
      = \<lparr>world = ([(''d'', 2147484141), (''a'', 420)], []), trace = [StatCall ''d'', Prompt ''recursively remove d?'']\<rparr>"
    by code_simp
  have evy: "\<lparr>world = (([(''d'', 2147484141), (''a'', 420)], [Some ''y'']) :: table_world), trace = []\<rparr>\<lparr>world := snd (Scanln table_rt (world \<lparr>world = (([(''d'', 2147484141), (''a'', 420)], [Some ''y'']) :: table_world), trace = []\<rparr>)),
        trace := trace \<lparr>world = (([(''d'', 2147484141), (''a'', 420)], [Some ''y'']) :: table_world), trace = []\<rparr> @ [StatCall ''d'', Prompt (''recursively remove '' @ ''d'' @ ''?'')]\<rparr>
      = \<lparr>world = ([(''d'', 2147484141), (''a'', 420)], []), trace = [StatCall ''d'', Prompt ''recursively remove d?'']\<rparr>"
    by code_simp
  note declined = recursive_prompt [where t = "''/tmp''" and rest = "[''a'']",
      OF dirn batch recursive, THEN conjunct1, THEN mp, OF no]
  note accepted = recursive_prompt [where t = "''/tmp''" and rest = "[''a'']",
      OF diry batch recursive, THEN conjunct2, THEN mp, OF yes]
  show ?thesis
    by (rule conjI [OF conjI [OF dirn conjI [OF batch recursive]]
          conjI [OF conjI [OF no declined [unfolded evn]]
            conjI [OF diry conjI [OF yes accepted [unfolded evy]]]]])
qed

subsection \<open>The prompt of -i\<close>

text \<open>
  C7. Under \<^verbatim>\<open>-i\<close> the part of the loop body from the name on starts with the prompt
  "remove <path>?"; an operand reaches it right after its lookup when the lookup
  succeeds and neither the directory rejection nor the prompt of \<^verbatim>\<open>-I -r\<close> applies.
  On a negative answer the prompt is the only event: no read-only check (no \<^verbatim>\<open>os.Stat\<close>),
  no message, no rename; the loop goes on with the next operand, and after the last
  operand the run ends with status 0. On a positive answer the pass goes on to the move.
\<close>

theorem interactive_decline:
  assumes "interactiveFlag fv"
  shows "(\<not> fst (getUserConfirmation rt (''remove '' @ filepath @ ''?'') st) \<longrightarrow>
            confirmAndMove rt fv t filepath st
              = Next (st\<lparr>world := snd (Scanln rt (world st)),
                         trace := trace st @ [Prompt (''remove '' @ filepath @ ''?'')]\<rparr>)
            \<and> (removeFile rt fv t filepath start = confirmAndMove rt fv t filepath st \<longrightarrow>
                 removeFiles rt fv t (filepath # rest) start
                   = removeFiles rt fv t rest
                       (st\<lparr>world := snd (Scanln rt (world st)),
                           trace := trace st @ [Prompt (''remove '' @ filepath @ ''?'')]\<rparr>)
                 \<and> removeFiles rt fv t [filepath] start
                   = (Exited 0, st\<lparr>world := snd (Scanln rt (world st)),
                                    trace := trace st @ [Prompt (''remove '' @ filepath @ ''?'')]\<rparr>)))
         \<and> (fst (getUserConfirmation rt (''remove '' @ filepath @ ''?'') st) \<longrightarrow>
            confirmAndMove rt fv t filepath st
              = moveFile rt fv filepath (displayName filepath) (destination t filepath)
                  (st\<lparr>world := snd (Scanln rt (world st)),
                      trace := trace st @ [Prompt (''remove '' @ filepath @ ''?'')]\<rparr>))
         \<and> (fst (IsDir rt filepath start) = Inr isDir
              \<and> \<not> (isDir \<and> \<not> recursiveFlag fv \<and> \<not> directoryFlag fv)
              \<and> \<not> (isDir \<and> nonintrusiveInteractiveFlag fv \<and> recursiveFlag fv) \<longrightarrow>
            removeFile rt fv t filepath start = confirmAndMove rt fv t filepath (emit (StatCall filepath) start))"
  using assms getUserConfirmation_state [of rt "''remove '' @ filepath @ ''?''" st]
    IsDir_state [of rt filepath start]
  by (cases "IsDir rt filepath start")
    (auto simp: confirmAndMove_def removeFile_def Let_def split: prod.splits)

theorem interactive_decline_witness:
  "interactiveFlag (deriveFlags [''-i''])
   \<and> ((fst (IsDir table_rt ''a'' \<lparr>world = (([(''a'', 420), (''b'', 420)], [Some ''n'']) :: table_world), trace = []\<rparr>) = Inr False
      \<and> \<not> (False \<and> \<not> recursiveFlag (deriveFlags [''-i'']) \<and> \<not> directoryFlag (deriveFlags [''-i'']))
      \<and> \<not> (False \<and> nonintrusiveInteractiveFlag (deriveFlags [''-i'']) \<and> recursiveFlag (deriveFlags [''-i''])))
    \<and> removeFile table_rt (deriveFlags [''-i'']) ''/tmp'' ''a'' \<lparr>world = (([(''a'', 420), (''b'', 420)], [Some ''n'']) :: table_world), trace = []\<rparr>
        = confirmAndMove table_rt (deriveFlags [''-i'']) ''/tmp'' ''a''
            (emit (StatCall ''a'') \<lparr>world = (([(''a'', 420), (''b'', 420)], [Some ''n'']) :: table_world), trace = []\<rparr>))
   \<and> (\<not> fst (getUserConfirmation table_rt (''remove '' @ ''a'' @ ''?'')
        (emit (StatCall ''a'') \<lparr>world = (([(''a'', 420), (''b'', 420)], [Some ''n'']) :: table_world), trace = []\<rparr>))
    \<and> confirmAndMove table_rt (deriveFlags [''-i'']) ''/tmp'' ''a''
          (emit (StatCall ''a'') \<lparr>world = (([(''a'', 420), (''b'', 420)], [Some ''n'']) :: table_world), trace = []\<rparr>)
        = Next \<lparr>world = ([(''a'', 420), (''b'', 420)], []), trace = [StatCall ''a'', Prompt ''remove a?'']\<rparr>
    \<and> removeFiles table_rt (deriveFlags [''-i'']) ''/tmp'' [''a'', ''b''] \<lparr>world = (([(''a'', 420), (''b'', 420)], [Some ''n'']) :: table_world), trace = []\<rparr>
        = removeFiles table_rt (deriveFlags [''-i'']) ''/tmp'' [''b'']
            \<lparr>world = ([(''a'', 420), (''b'', 420)], []), trace = [StatCall ''a'', Prompt ''remove a?'']\<rparr>
    \<and> removeFiles table_rt (deriveFlags [''-i'']) ''/tmp'' [''a''] \<lparr>world = (([(''a'', 420), (''b'', 420)], [Some ''n'']) :: table_world), trace = []\<rparr>
        = (Exited 0, \<lparr>world = ([(''a'', 420), (''b'', 420)], []), trace = [StatCall ''a'', Prompt ''remove a?'']\<rparr>))
   \<and> (fst (getUserConfirmation table_rt (''remove '' @ ''a'' @ ''?'')
        (emit (StatCall ''a'') \<lparr>world = (([(''a'', 420), (''b'', 420)], [Some ''y'']) :: table_world), trace = []\<rparr>))
    \<and> confirmAndMove table_rt (deriveFlags [''-i'']) ''/tmp'' ''a''
          (emit (StatCall ''a'') \<lparr>world = (([(''a'', 420), (''b'', 420)], [Some ''y'']) :: table_world), trace = []\<rparr>)
        = moveFile table_rt (deriveFlags [''-i'']) ''a'' (displayName ''a'') (destination ''/tmp'' ''a'')
            \<lparr>world = ([(''a'', 420), (''b'', 420)], []), trace = [StatCall ''a'', Prompt ''remove a?'']\<rparr>)"
proof -
  have flag: "interactiveFlag (deriveFlags [''-i''])"
    by code_simp
  have nodir: "fst (IsDir table_rt ''a'' \<lparr>world = (([(''a'', 420), (''b'', 420)], [Some ''n'']) :: table_world), trace = []\<rparr>) = Inr False
      \<and> \<not> (False \<and> \<not> recursiveFlag (deriveFlags [''-i'']) \<and> \<not> directoryFlag (deriveFlags [''-i'']))
      \<and> \<not> (False \<and> nonintrusiveInteractiveFlag (deriveFlags [''-i'']) \<and> recursiveFlag (deriveFlags [''-i'']))"
    by code_simp
  have no: "\<not> fst (getUserConfirmation table_rt (''remove '' @ ''a'' @ ''?'')
        (emit (StatCall ''a'') \<lparr>world = (([(''a'', 420), (''b'', 420)], [Some ''n'']) :: table_world), trace = []\<rparr>))"
    by code_simp
  have yes: "fst (getUserConfirmation table_rt (''remove '' @ ''a'' @ ''?'')
        (emit (StatCall ''a'') \<lparr>world = (([(''a'', 420), (''b'', 420)], [Some ''y'']) :: table_world), trace = []\<rparr>))"
    by code_simp
  have evn: "(emit (StatCall ''a'') \<lparr>world = (([(''a'', 420), (''b'', 420)], [Some ''n'']) :: table_world), trace = []\<rparr>)\<lparr>world := snd (Scanln table_rt (world (emit (StatCall ''a'') \<lparr>world = (([(''a'', 420), (''b'', 420)], [Some ''n'']) :: table_world), trace = []\<rparr>))),
        trace := trace (emit (StatCall ''a'') \<lparr>world = (([(''a'', 420), (''b'', 420)], [Some ''n'']) :: table_world), trace = []\<rparr>) @ [Prompt (''remove '' @ ''a'' @ ''?'')]\<rparr>
      = \<lparr>world = ([(''a'', 420), (''b'', 420)], []), trace = [StatCall ''a'', Prompt ''remove a?'']\<rparr>"
    by code_simp
  have evy: "(emit (StatCall ''a'') \<lparr>world = (([(''a'', 420), (''b'', 420)], [Some ''y'']) :: table_world), trace = []\<rparr>)\<lparr>world := snd (Scanln table_rt (world (emit (StatCall ''a'') \<lparr>world = (([(''a'', 420), (''b'', 420)], [Some ''y'']) :: table_world), trace = []\<rparr>))),
        trace := trace (emit (StatCall ''a'') \<lparr>world = (([(''a'', 420), (''b'', 420)], [Some ''y'']) :: table_world), trace = []\<rparr>) @ [Prompt (''remove '' @ ''a'' @ ''?'')]\<rparr>
      = \<lparr>world = ([(''a'', 420), (''b'', 420)], []), trace = [StatCall ''a'', Prompt ''remove a?'']\<rparr>"
    by code_simp
  note reach = interactive_decline [where t = "''/tmp''" and rest = "[''b'']"
      and st = "emit (StatCall ''a'') \<lparr>world = (([(''a'', 420), (''b'', 420)], [Some ''n'']) :: table_world), trace = []\<rparr>",
      OF flag, THEN conjunct2, THEN conjunct2, THEN mp, OF nodir]
  note declined = interactive_decline [where t = "''/tmp''" and rest = "[''b'']"
      and start = "\<lparr>world = (([(''a'', 420), (''b'', 420)], [Some ''n'']) :: table_world), trace = []\<rparr>",
      OF flag, THEN conjunct1, THEN mp, OF no]
  note pass = declined [THEN conjunct1]
  note loop = declined [THEN conjunct2, THEN mp, OF reach]
  note accepted = interactive_decline [where t = "''/tmp''" and rest = "[''b'']"
      and start = "\<lparr>world = (([(''a'', 420), (''b'', 420)], [Some ''y'']) :: table_world), trace = []\<rparr>",
      OF flag, THEN conjunct2, THEN conjunct1, THEN mp, OF yes]
  show ?thesis
    by (rule conjI [OF flag conjI [OF conjI [OF nodir reach]
          conjI [OF conjI [OF no conjI [OF pass [unfolded evn] loop [unfolded evn]]]
            conjI [OF yes accepted [unfolded evy]]]]])
qed

subsection \<open>Read-only files\<close>

text \<open>When the loop body comes down to the move, and what the move does with a read-only file.\<close>

lemma removeFile_reaches_move:
  assumes "fst (IsDir rt filepath start) = Inr isDir"
    and "\<not> (isDir \<and> \<not> recursiveFlag fv \<and> \<not> directoryFlag fv)"
    and "isDir \<and> nonintrusiveInteractiveFlag fv \<and> recursiveFlag fv \<longrightarrow>
           fst (getUserConfirmation rt (''recursively remove '' @ filepath @ ''?'') (emit (StatCall filepath) start))"
    and "asked = (if isDir \<and> nonintrusiveInteractiveFlag fv \<and> recursiveFlag fv
                  then snd (getUserConfirmation rt (''recursively remove '' @ filepath @ ''?'') (emit (StatCall filepath) start))
                  else emit (StatCall filepath) start)"
    and "interactiveFlag fv \<longrightarrow> fst (getUserConfirmation rt (''remove '' @ filepath @ ''?'') asked)"
    and "st = (if interactiveFlag fv
               then snd (getUserConfirmation rt (''remove '' @ filepath @ ''?'') asked)
               else asked)"
  shows "removeFile rt fv t filepath start
    = moveFile rt fv filepath (displayName filepath) (destination t filepath) st"
proof -
  have body: "removeFile rt fv t filepath start = confirmAndMove rt fv t filepath asked"
    using assms(1-4) IsDir_state [of rt filepath start]
    by (cases "IsDir rt filepath start") (auto simp: removeFile_def case_prod_beta)
  have "confirmAndMove rt fv t filepath asked
      = moveFile rt fv filepath (displayName filepath) (destination t filepath) st"
    using assms(5,6) by (auto simp: confirmAndMove_def Let_def case_prod_beta)
  with body show ?thesis by simp
qed

lemma moveFile_readonly:
  assumes "stripSlash filepath = Inr p" and "fst (IsReadOnly rt p st) = Inr True"
  shows "(\<not> forceFlag fv \<longrightarrow>
            moveFile rt fv filepath filename dest st
              = Halt (Exited 1) (st\<lparr>trace := trace st @ [StatCall p, ReadOnlyRejection]\<rparr>))
         \<and> (forceFlag fv \<longrightarrow>
            moveFile rt fv filepath filename dest st
              = Next (st\<lparr>world := Rename rt (world st) p dest,
                         trace := trace st @ [StatCall p]
                                  @ (if verboseFlag fv then [VerboseName filename] else [])
                                  @ [RenameCall p dest]\<rparr>))"
  using assms IsReadOnly_state [of rt p st]
  by (cases "IsReadOnly rt p st") (auto simp: moveFile_def emit_def Let_def)

text \<open>
  C5. An operand whose stripped path \<^verbatim>\<open>IsReadOnly\<close> reports as read-only. Without \<^verbatim>\<open>-f\<close>
  the move prints "File is read-only" and the process exits with status 1: the lookup
  and the message are the only events and nothing is renamed. With \<^verbatim>\<open>-f\<close> there is no
  message and the file is renamed to its destination. Both hold of the loop itself: when
  the lookup of the operand by \<^verbatim>\<open>IsDir\<close> succeeds, the directory rejection does not apply
  and every prompt that is asked is accepted, the pass through the loop body ends in that
  exit, whatever operands follow, or, with \<^verbatim>\<open>-f\<close>, in the rename, after which the loop
  goes on with the next operand.
\<close>

theorem readonly_rejection:
  assumes "stripSlash filepath = Inr p" and "fst (IsReadOnly rt p st) = Inr True"
  shows "(\<not> forceFlag fv \<longrightarrow>
            moveFile rt fv filepath filename dest st
              = Halt (Exited 1) (st\<lparr>trace := trace st @ [StatCall p, ReadOnlyRejection]\<rparr>))
         \<and> (forceFlag fv \<longrightarrow>
            moveFile rt fv filepath filename dest st
              = Next (st\<lparr>world := Rename rt (world st) p dest,
                         trace := trace st @ [StatCall p]
                                  @ (if verboseFlag fv then [VerboseName filename] else [])
                                  @ [RenameCall p dest]\<rparr>))
         \<and> render ReadOnlyRejection = ''File is read-only'' @ nl
         \<and> (fst (IsDir rt filepath start) = Inr isDir
              \<and> \<not> (isDir \<and> \<not> recursiveFlag fv \<and> \<not> directoryFlag fv)
              \<and> (isDir \<and> nonintrusiveInteractiveFlag fv \<and> recursiveFlag fv \<longrightarrow>
                   fst (getUserConfirmation rt (''recursively remove '' @ filepath @ ''?'')
                          (emit (StatCall filepath) start)))
              \<and> asked = (if isDir \<and> nonintrusiveInteractiveFlag fv \<and> recursiveFlag fv
                          then snd (getUserConfirmation rt (''recursively remove '' @ filepath @ ''?'')
                                      (emit (StatCall filepath) start))
                          else emit (StatCall filepath) start)
              \<and> (interactiveFlag fv \<longrightarrow>
                   fst (getUserConfirmation rt (''remove '' @ filepath @ ''?'') asked))
              \<and> st = (if interactiveFlag fv
                       then snd (getUserConfirmation rt (''remove '' @ filepath @ ''?'') asked)
                       else asked) \<longrightarrow>
              (\<not> forceFlag fv \<longrightarrow>
                 removeFile rt fv t filepath start
                   = Halt (Exited 1) (st\<lparr>trace := trace st @ [StatCall p, ReadOnlyRejection]\<rparr>)
                 \<and> removeFiles rt fv t (filepath # rest) start
                   = (Exited 1, st\<lparr>trace := trace st @ [StatCall p, ReadOnlyRejection]\<rparr>))
              \<and> (forceFlag fv \<longrightarrow>
                 removeFile rt fv t filepath start
                   = Next (st\<lparr>world := Rename rt (world st) p (destination t filepath),
                              trace := trace st @ [StatCall p]
                                  @ (if verboseFlag fv then [VerboseName (displayName filepath)] else [])
                                  @ [RenameCall p (destination t filepath)]\<rparr>)
                 \<and> removeFiles rt fv t (filepath # rest) start
                   = removeFiles rt fv t rest
                       (st\<lparr>world := Rename rt (world st) p (destination t filepath),
                           trace := trace st @ [StatCall p]
                                  @ (if verboseFlag fv then [VerboseName (displayName filepath)] else [])
                                  @ [RenameCall p (destination t filepath)]\<rparr>)))"
    (is "?no \<and> ?yes \<and> ?shown \<and> (?reach \<longrightarrow> ?run)")
proof -
  note move = moveFile_readonly [OF assms, of fv]
  from move [of filename dest] have no: ?no and yes: ?yes by blast+
  have shown: ?shown by simp
  have run: "?reach \<longrightarrow> ?run"
  proof
    assume ?reach
    then have "removeFile rt fv t filepath start
        = moveFile rt fv filepath (displayName filepath) (destination t filepath) st"
      by (intro removeFile_reaches_move [where isDir = isDir and asked = asked]) blast+
    with move [of "displayName filepath" "destination t filepath"] show ?run by simp
  qed
  from no yes shown run show ?thesis by blast
qed

theorem readonly_rejection_witness:
  "((stripSlash ''ro.txt'' = Inr ''ro.txt''
     \<and> fst (IsReadOnly table_rt ''ro.txt''
        \<lparr>world = (([(''ro.txt'', 292), (''b'', 420)], []) :: table_world), trace = [StatCall ''ro.txt'']\<rparr>) = Inr True)
    \<and> (fst (IsDir table_rt ''ro.txt'' \<lparr>world = (([(''ro.txt'', 292), (''b'', 420)], []) :: table_world), trace = []\<rparr>) = Inr False
      \<and> \<not> interactiveFlag (deriveFlags [])
      \<and> emit (StatCall ''ro.txt'') \<lparr>world = (([(''ro.txt'', 292), (''b'', 420)], []) :: table_world), trace = []\<rparr>
        = \<lparr>world = (([(''ro.txt'', 292), (''b'', 420)], []) :: table_world), trace = [StatCall ''ro.txt'']\<rparr>)
    \<and> \<not> forceFlag (deriveFlags [])
    \<and> removeFile table_rt (deriveFlags []) ''/tmp'' ''ro.txt''
        \<lparr>world = (([(''ro.txt'', 292), (''b'', 420)], []) :: table_world), trace = []\<rparr>
      = Halt (Exited 1) \<lparr>world = ([(''ro.txt'', 292), (''b'', 420)], []), trace = [StatCall ''ro.txt'', StatCall ''ro.txt'', ReadOnlyRejection]\<rparr>
    \<and> removeFiles table_rt (deriveFlags []) ''/tmp'' [''ro.txt'', ''b'']
        \<lparr>world = (([(''ro.txt'', 292), (''b'', 420)], []) :: table_world), trace = []\<rparr>
      = (Exited 1, \<lparr>world = ([(''ro.txt'', 292), (''b'', 420)], []), trace = [StatCall ''ro.txt'', StatCall ''ro.txt'', ReadOnlyRejection]\<rparr>))
   \<and> ((fst (IsDir table_rt ''ro.txt'' \<lparr>world = (([(''ro.txt'', 292), (''b'', 420)], []) :: table_world), trace = []\<rparr>) = Inr False
      \<and> \<not> interactiveFlag (deriveFlags [''-f'', ''-v''])
      \<and> emit (StatCall ''ro.txt'') \<lparr>world = (([(''ro.txt'', 292), (''b'', 420)], []) :: table_world), trace = []\<rparr>
        = \<lparr>world = (([(''ro.txt'', 292), (''b'', 420)], []) :: table_world), trace = [StatCall ''ro.txt'']\<rparr>)
    \<and> forceFlag (deriveFlags [''-f'', ''-v''])
    \<and> removeFile table_rt (deriveFlags [''-f'', ''-v'']) ''/tmp'' ''ro.txt''
        \<lparr>world = (([(''ro.txt'', 292), (''b'', 420)], []) :: table_world), trace = []\<rparr>
      = Next \<lparr>world = ([(''/tmp/ro.txt'', 292), (''b'', 420)], []), trace = [StatCall ''ro.txt'', StatCall ''ro.txt'', VerboseName ''ro.txt'',
          RenameCall ''ro.txt'' ''/tmp/ro.txt'']\<rparr>
    \<and> removeFiles table_rt (deriveFlags [''-f'', ''-v'']) ''/tmp'' [''ro.txt'', ''b'']
        \<lparr>world = (([(''ro.txt'', 292), (''b'', 420)], []) :: table_world), trace = []\<rparr>
      = removeFiles table_rt (deriveFlags [''-f'', ''-v'']) ''/tmp'' [''b'']
          \<lparr>world = ([(''/tmp/ro.txt'', 292), (''b'', 420)], []), trace = [StatCall ''ro.txt'', StatCall ''ro.txt'', VerboseName ''ro.txt'',
          RenameCall ''ro.txt'' ''/tmp/ro.txt'']\<rparr>)
   \<and> ((stripSlash ''rod/'' = Inr ''rod''
     \<and> fst (IsReadOnly table_rt ''rod''
        \<lparr>world = (([(''rod'', 2147484013), (''b'', 420)], []) :: table_world), trace = [StatCall ''rod/'']\<rparr>) = Inr True)
    \<and> (fst (IsDir table_rt ''rod/'' \<lparr>world = (([(''rod'', 2147484013), (''b'', 420)], []) :: table_world), trace = []\<rparr>) = Inr True
      \<and> recursiveFlag (deriveFlags [''-r''])
      \<and> \<not> nonintrusiveInteractiveFlag (deriveFlags [''-r''])
      \<and> \<not> interactiveFlag (deriveFlags [''-r''])
      \<and> emit (StatCall ''rod/'') \<lparr>world = (([(''rod'', 2147484013), (''b'', 420)], []) :: table_world), trace = []\<rparr>
        = \<lparr>world = (([(''rod'', 2147484013), (''b'', 420)], []) :: table_world), trace = [StatCall ''rod/'']\<rparr>)
    \<and> \<not> forceFlag (deriveFlags [''-r''])
    \<and> removeFile table_rt (deriveFlags [''-r'']) ''/tmp'' ''rod/''
        \<lparr>world = (([(''rod'', 2147484013), (''b'', 420)], []) :: table_world), trace = []\<rparr>
      = Halt (Exited 1) \<lparr>world = ([(''rod'', 2147484013), (''b'', 420)], []), trace = [StatCall ''rod/'', StatCall ''rod'', ReadOnlyRejection]\<rparr>
    \<and> removeFiles table_rt (deriveFlags [''-r'']) ''/tmp'' [''rod/'', ''b'']
        \<lparr>world = (([(''rod'', 2147484013), (''b'', 420)], []) :: table_world), trace = []\<rparr>
      = (Exited 1, \<lparr>world = ([(''rod'', 2147484013), (''b'', 420)], []), trace = [StatCall ''rod/'', StatCall ''rod'', ReadOnlyRejection]\<rparr>))"
proof -
  have stripA: "stripSlash ''ro.txt'' = Inr ''ro.txt''"
    by code_simp
  have roA: "fst (IsReadOnly table_rt ''ro.txt''
        \<lparr>world = (([(''ro.txt'', 292), (''b'', 420)], []) :: table_world), trace = [StatCall ''ro.txt'']\<rparr>) = Inr True"
    by code_simp
  have reachA: "fst (IsDir table_rt ''ro.txt'' \<lparr>world = (([(''ro.txt'', 292), (''b'', 420)], []) :: table_world), trace = []\<rparr>) = Inr False
      \<and> \<not> (False \<and> \<not> recursiveFlag (deriveFlags []) \<and> \<not> directoryFlag (deriveFlags []))
      \<and> (False \<and> nonintrusiveInteractiveFlag (deriveFlags []) \<and> recursiveFlag (deriveFlags []) \<longrightarrow>
           fst (getUserConfirmation table_rt (''recursively remove '' @ ''ro.txt'' @ ''?'')
                  (emit (StatCall ''ro.txt'') \<lparr>world = (([(''ro.txt'', 292), (''b'', 420)], []) :: table_world), trace = []\<rparr>)))
      \<and> \<lparr>world = (([(''ro.txt'', 292), (''b'', 420)], []) :: table_world), trace = [StatCall ''ro.txt'']\<rparr>
          = (if False \<and> nonintrusiveInteractiveFlag (deriveFlags []) \<and> recursiveFlag (deriveFlags [])
             then snd (getUserConfirmation table_rt (''recursively remove '' @ ''ro.txt'' @ ''?'')
                         (emit (StatCall ''ro.txt'') \<lparr>world = (([(''ro.txt'', 292), (''b'', 420)], []) :: table_world), trace = []\<rparr>))
             else emit (StatCall ''ro.txt'') \<lparr>world = (([(''ro.txt'', 292), (''b'', 420)], []) :: table_world), trace = []\<rparr>)
      \<and> (interactiveFlag (deriveFlags []) \<longrightarrow>
           fst (getUserConfirmation table_rt (''remove '' @ ''ro.txt'' @ ''?'') \<lparr>world = (([(''ro.txt'', 292), (''b'', 420)], []) :: table_world), trace = [StatCall ''ro.txt'']\<rparr>))
      \<and> \<lparr>world = (([(''ro.txt'', 292), (''b'', 420)], []) :: table_world), trace = [StatCall ''ro.txt'']\<rparr>
          = (if interactiveFlag (deriveFlags [])
             then snd (getUserConfirmation table_rt (''remove '' @ ''ro.txt'' @ ''?'') \<lparr>world = (([(''ro.txt'', 292), (''b'', 420)], []) :: table_world), trace = [StatCall ''ro.txt'']\<rparr>)
             else \<lparr>world = (([(''ro.txt'', 292), (''b'', 420)], []) :: table_world), trace = [StatCall ''ro.txt'']\<rparr>)"
    by code_simp
  have factsA: "fst (IsDir table_rt ''ro.txt'' \<lparr>world = (([(''ro.txt'', 292), (''b'', 420)], []) :: table_world), trace = []\<rparr>) = Inr False
      \<and> \<not> interactiveFlag (deriveFlags [])
      \<and> emit (StatCall ''ro.txt'') \<lparr>world = (([(''ro.txt'', 292), (''b'', 420)], []) :: table_world), trace = []\<rparr>
        = \<lparr>world = (([(''ro.txt'', 292), (''b'', 420)], []) :: table_world), trace = [StatCall ''ro.txt'']\<rparr>"
    by code_simp
  have noforceA: "\<not> forceFlag (deriveFlags [])"
    by code_simp
  have evA: "\<lparr>world = (([(''ro.txt'', 292), (''b'', 420)], []) :: table_world), trace = [StatCall ''ro.txt'']\<rparr>\<lparr>trace := trace \<lparr>world = (([(''ro.txt'', 292), (''b'', 420)], []) :: table_world), trace = [StatCall ''ro.txt'']\<rparr>
          @ [StatCall ''ro.txt'', ReadOnlyRejection]\<rparr>
      = \<lparr>world = ([(''ro.txt'', 292), (''b'', 420)], []), trace = [StatCall ''ro.txt'', StatCall ''ro.txt'', ReadOnlyRejection]\<rparr>"
    by code_simp
  have reachB: "fst (IsDir table_rt ''ro.txt'' \<lparr>world = (([(''ro.txt'', 292), (''b'', 420)], []) :: table_world), trace = []\<rparr>) = Inr False
      \<and> \<not> (False \<and> \<not> recursiveFlag (deriveFlags [''-f'', ''-v'']) \<and> \<not> directoryFlag (deriveFlags [''-f'', ''-v'']))
      \<and> (False \<and> nonintrusiveInteractiveFlag (deriveFlags [''-f'', ''-v'']) \<and> recursiveFlag (deriveFlags [''-f'', ''-v'']) \<longrightarrow>
           fst (getUserConfirmation table_rt (''recursively remove '' @ ''ro.txt'' @ ''?'')
                  (emit (StatCall ''ro.txt'') \<lparr>world = (([(''ro.txt'', 292), (''b'', 420)], []) :: table_world), trace = []\<rparr>)))
      \<and> \<lparr>world = (([(''ro.txt'', 292), (''b'', 420)], []) :: table_world), trace = [StatCall ''ro.txt'']\<rparr>
          = (if False \<and> nonintrusiveInteractiveFlag (deriveFlags [''-f'', ''-v'']) \<and> recursiveFlag (deriveFlags [''-f'', ''-v''])
             then snd (getUserConfirmation table_rt (''recursively remove '' @ ''ro.txt'' @ ''?'')
                         (emit (StatCall ''ro.txt'') \<lparr>world = (([(''ro.txt'', 292), (''b'', 420)], []) :: table_world), trace = []\<rparr>))
             else emit (StatCall ''ro.txt'') \<lparr>world = (([(''ro.txt'', 292), (''b'', 420)], []) :: table_world), trace = []\<rparr>)
      \<and> (interactiveFlag (deriveFlags [''-f'', ''-v'']) \<longrightarrow>
           fst (getUserConfirmation table_rt (''remove '' @ ''ro.txt'' @ ''?'') \<lparr>world = (([(''ro.txt'', 292), (''b'', 420)], []) :: table_world), trace = [StatCall ''ro.txt'']\<rparr>))
      \<and> \<lparr>world = (([(''ro.txt'', 292), (''b'', 420)], []) :: table_world), trace = [StatCall ''ro.txt'']\<rparr>
          = (if interactiveFlag (deriveFlags [''-f'', ''-v''])
             then snd (getUserConfirmation table_rt (''remove '' @ ''ro.txt'' @ ''?'') \<lparr>world = (([(''ro.txt'', 292), (''b'', 420)], []) :: table_world), trace = [StatCall ''ro.txt'']\<rparr>)
             else \<lparr>world = (([(''ro.txt'', 292), (''b'', 420)], []) :: table_world), trace = [StatCall ''ro.txt'']\<rparr>)"
    by code_simp
  have factsB: "fst (IsDir table_rt ''ro.txt'' \<lparr>world = (([(''ro.txt'', 292), (''b'', 420)], []) :: table_world), trace = []\<rparr>) = Inr False
      \<and> \<not> interactiveFlag (deriveFlags [''-f'', ''-v''])
      \<and> emit (StatCall ''ro.txt'') \<lparr>world = (([(''ro.txt'', 292), (''b'', 420)], []) :: table_world), trace = []\<rparr>
        = \<lparr>world = (([(''ro.txt'', 292), (''b'', 420)], []) :: table_world), trace = [StatCall ''ro.txt'']\<rparr>"
    by code_simp
  have forceB: "forceFlag (deriveFlags [''-f'', ''-v''])"
    by code_simp
  have evB: "\<lparr>world = (([(''ro.txt'', 292), (''b'', 420)], []) :: table_world), trace = [StatCall ''ro.txt'']\<rparr>\<lparr>world := Rename table_rt (world \<lparr>world = (([(''ro.txt'', 292), (''b'', 420)], []) :: table_world), trace = [StatCall ''ro.txt'']\<rparr>) ''ro.txt'' (destination ''/tmp'' ''ro.txt''),
        trace := trace \<lparr>world = (([(''ro.txt'', 292), (''b'', 420)], []) :: table_world), trace = [StatCall ''ro.txt'']\<rparr> @ [StatCall ''ro.txt'']
          @ (if verboseFlag (deriveFlags [''-f'', ''-v'']) then [VerboseName (displayName ''ro.txt'')] else [])
          @ [RenameCall ''ro.txt'' (destination ''/tmp'' ''ro.txt'')]\<rparr>
      = \<lparr>world = ([(''/tmp/ro.txt'', 292), (''b'', 420)], []), trace = [StatCall ''ro.txt'', StatCall ''ro.txt'', VerboseName ''ro.txt'',
          RenameCall ''ro.txt'' ''/tmp/ro.txt'']\<rparr>"
    by code_simp
  have stripC: "stripSlash ''rod/'' = Inr ''rod''"
    by code_simp
  have roC: "fst (IsReadOnly table_rt ''rod''
        \<lparr>world = (([(''rod'', 2147484013), (''b'', 420)], []) :: table_world), trace = [StatCall ''rod/'']\<rparr>) = Inr True"
    by code_simp
  have reachC: "fst (IsDir table_rt ''rod/'' \<lparr>world = (([(''rod'', 2147484013), (''b'', 420)], []) :: table_world), trace = []\<rparr>) = Inr True
      \<and> \<not> (True \<and> \<not> recursiveFlag (deriveFlags [''-r'']) \<and> \<not> directoryFlag (deriveFlags [''-r'']))
      \<and> (True \<and> nonintrusiveInteractiveFlag (deriveFlags [''-r'']) \<and> recursiveFlag (deriveFlags [''-r'']) \<longrightarrow>
           fst (getUserConfirmation table_rt (''recursively remove '' @ ''rod/'' @ ''?'')
                  (emit (StatCall ''rod/'') \<lparr>world = (([(''rod'', 2147484013), (''b'', 420)], []) :: table_world), trace = []\<rparr>)))
      \<and> \<lparr>world = (([(''rod'', 2147484013), (''b'', 420)], []) :: table_world), trace = [StatCall ''rod/'']\<rparr>
          = (if True \<and> nonintrusiveInteractiveFlag (deriveFlags [''-r'']) \<and> recursiveFlag (deriveFlags [''-r''])
             then snd (getUserConfirmation table_rt (''recursively remove '' @ ''rod/'' @ ''?'')
                         (emit (StatCall ''rod/'') \<lparr>world = (([(''rod'', 2147484013), (''b'', 420)], []) :: table_world), trace = []\<rparr>))
             else emit (StatCall ''rod/'') \<lparr>world = (([(''rod'', 2147484013), (''b'', 420)], []) :: table_world), trace = []\<rparr>)
      \<and> (interactiveFlag (deriveFlags [''-r'']) \<longrightarrow>
           fst (getUserConfirmation table_rt (''remove '' @ ''rod/'' @ ''?'') \<lparr>world = (([(''rod'', 2147484013), (''b'', 420)], []) :: table_world), trace = [StatCall ''rod/'']\<rparr>))
      \<and> \<lparr>world = (([(''rod'', 2147484013), (''b'', 420)], []) :: table_world), trace = [StatCall ''rod/'']\<rparr>
          = (if interactiveFlag (deriveFlags [''-r''])
             then snd (getUserConfirmation table_rt (''remove '' @ ''rod/'' @ ''?'') \<lparr>world = (([(''rod'', 2147484013), (''b'', 420)], []) :: table_world), trace = [StatCall ''rod/'']\<rparr>)
             else \<lparr>world = (([(''rod'', 2147484013), (''b'', 420)], []) :: table_world), trace = [StatCall ''rod/'']\<rparr>)"
    by code_simp
  have factsC: "fst (IsDir table_rt ''rod/'' \<lparr>world = (([(''rod'', 2147484013), (''b'', 420)], []) :: table_world), trace = []\<rparr>) = Inr True
      \<and> recursiveFlag (deriveFlags [''-r''])
      \<and> \<not> nonintrusiveInteractiveFlag (deriveFlags [''-r''])
      \<and> \<not> interactiveFlag (deriveFlags [''-r''])
      \<and> emit (StatCall ''rod/'') \<lparr>world = (([(''rod'', 2147484013), (''b'', 420)], []) :: table_world), trace = []\<rparr>
        = \<lparr>world = (([(''rod'', 2147484013), (''b'', 420)], []) :: table_world), trace = [StatCall ''rod/'']\<rparr>"
    by code_simp
  have noforceC: "\<not> forceFlag (deriveFlags [''-r''])"
    by code_simp
  have evC: "\<lparr>world = (([(''rod'', 2147484013), (''b'', 420)], []) :: table_world), trace = [StatCall ''rod/'']\<rparr>\<lparr>trace := trace \<lparr>world = (([(''rod'', 2147484013), (''b'', 420)], []) :: table_world), trace = [StatCall ''rod/'']\<rparr>
          @ [StatCall ''rod'', ReadOnlyRejection]\<rparr>
      = \<lparr>world = ([(''rod'', 2147484013), (''b'', 420)], []), trace = [StatCall ''rod/'', StatCall ''rod'', ReadOnlyRejection]\<rparr>"
    by code_simp
  note runA = readonly_rejection [where fv = "deriveFlags []" and t = "''/tmp''" and rest = "[''b'']"
      and filename = "displayName ''ro.txt''" and dest = "destination ''/tmp'' ''ro.txt''"
      and start = "\<lparr>world = (([(''ro.txt'', 292), (''b'', 420)], []) :: table_world), trace = []\<rparr>"
      and isDir = False
      and asked = "\<lparr>world = (([(''ro.txt'', 292), (''b'', 420)], []) :: table_world), trace = [StatCall ''ro.txt'']\<rparr>",
      OF stripA roA, THEN conjunct2, THEN conjunct2, THEN conjunct2, THEN mp, OF reachA,
      THEN conjunct1, THEN mp, OF noforceA]
  note runB = readonly_rejection [where fv = "deriveFlags [''-f'', ''-v'']" and t = "''/tmp''" and rest = "[''b'']"
      and filename = "displayName ''ro.txt''" and dest = "destination ''/tmp'' ''ro.txt''"
      and start = "\<lparr>world = (([(''ro.txt'', 292), (''b'', 420)], []) :: table_world), trace = []\<rparr>"
      and isDir = False
      and asked = "\<lparr>world = (([(''ro.txt'', 292), (''b'', 420)], []) :: table_world), trace = [StatCall ''ro.txt'']\<rparr>",
      OF stripA roA, THEN conjunct2, THEN conjunct2, THEN conjunct2, THEN mp, OF reachB,
      THEN conjunct2, THEN mp, OF forceB]
  note runC = readonly_rejection [where fv = "deriveFlags [''-r'']" and t = "''/tmp''" and rest = "[''b'']"
      and filename = "displayName ''rod/''" and dest = "destination ''/tmp'' ''rod/''"
      and start = "\<lparr>world = (([(''rod'', 2147484013), (''b'', 420)], []) :: table_world), trace = []\<rparr>"
      and isDir = True
      and asked = "\<lparr>world = (([(''rod'', 2147484013), (''b'', 420)], []) :: table_world), trace = [StatCall ''rod/'']\<rparr>",
      OF stripC roC, THEN conjunct2, THEN conjunct2, THEN conjunct2, THEN mp, OF reachC,
      THEN conjunct1, THEN mp, OF noforceC]
  show ?thesis
    by (rule conjI [OF conjI [OF conjI [OF stripA roA] conjI [OF factsA conjI [OF noforceA runA [unfolded evA]]]]
          conjI [OF conjI [OF factsB conjI [OF forceB runB [unfolded evB]]]
            conjI [OF conjI [OF stripC roC] conjI [OF factsC conjI [OF noforceC runC [unfolded evC]]]]]])
qed

subsection \<open>The empty operand\<close>


lemma moveFile_empty: "moveFile rt fv [] filename dest st = Halt Panicked st"
  by (simp add: moveFile_def stripSlash_def)








subsection \<open>The name and the destination of an operand\<close>

lemma Split_nonempty: "Split s sep \<noteq> []"
  by (induction s) (auto split: list.splits)

lemma Split_append_sep: "Split (p @ sep # q) sep = Split p sep @ Split q sep"
proof (induction p)
  case Nil
  show ?case by simp
next
  case (Cons a p)
  show ?case
  proof (cases "Split p sep")
    case Nil
    with Split_nonempty show ?thesis by blast
  next
    case (Cons x xs)
    with Cons.IH show ?thesis by simp
  qed
qed

lemma displayName_after_slash: "displayName (p @ CHR ''/'' # q) = displayName q"
  by (simp add: displayName_def Split_append_sep Split_nonempty)

text \<open>
  C1. The operand \<^verbatim>\<open>foo/\<close> does not get the name and the destination of \<^verbatim>\<open>foo\<close>. The
  name is taken from the path as given, before the trailing slashes are stripped, and the
  last piece of a path that ends with a slash is empty: for every such path the name is
  empty and the destination is the target directory followed by a slash. For \<^verbatim>\<open>foo/\<close>
  under \<^verbatim>\<open>/tmp\<close> the name is empty and the destination is \<^verbatim>\<open>/tmp/\<close>, where \<^verbatim>\<open>foo\<close> gets
  \<^verbatim>\<open>foo\<close> and \<^verbatim>\<open>/tmp/foo\<close>. Only the source of the rename is stripped: with \<^verbatim>\<open>-r -v\<close> the
  run on the directory \<^verbatim>\<open>foo/\<close> prints an empty name and calls the rename of \<^verbatim>\<open>foo\<close> to
  \<^verbatim>\<open>/tmp/\<close>; on \<^verbatim>\<open>foo\<close> it prints \<^verbatim>\<open>foo\<close> and renames \<^verbatim>\<open>foo\<close> to \<^verbatim>\<open>/tmp/foo\<close>.
\<close>

theorem trailing_slash_display_name:
  "displayName (p @ ''/'') = [] \<and> destination t (p @ ''/'') = t @ ''/''
   \<and> displayName ''foo/'' = [] \<and> displayName ''foo'' = ''foo''
   \<and> destination ''/tmp'' ''foo/'' = ''/tmp/'' \<and> destination ''/tmp'' ''foo'' = ''/tmp/foo''
   \<and> stripSlash ''foo/'' = Inr ''foo''
   \<and> removeFiles table_rt (deriveFlags [''-r'', ''-v'']) ''/tmp'' [''foo/'']
        \<lparr>world = (([(''foo'', 2147484141)], []) :: table_world), trace = []\<rparr>
      = (Exited 0, \<lparr>world = ([(''foo'', 2147484141)], []), trace = [StatCall ''foo/'', StatCall ''foo'', VerboseName [], RenameCall ''foo'' ''/tmp/'']\<rparr>)
   \<and> removeFiles table_rt (deriveFlags [''-r'', ''-v'']) ''/tmp'' [''foo'']
        \<lparr>world = (([(''foo'', 2147484141)], []) :: table_world), trace = []\<rparr>
      = (Exited 0, \<lparr>world = ([(''/tmp/foo'', 2147484141)], []), trace = [StatCall ''foo'', StatCall ''foo'', VerboseName ''foo'',
          RenameCall ''foo'' ''/tmp/foo'']\<rparr>)"
proof -
  have general: "displayName (p @ ''/'') = []" "destination t (p @ ''/'') = t @ ''/''"
    using displayName_after_slash [of p "[]"] by (simp_all add: destination_def displayName_def)
  have names: "displayName ''foo/'' = []" "displayName ''foo'' = ''foo''"
      "destination ''/tmp'' ''foo/'' = ''/tmp/''" "destination ''/tmp'' ''foo'' = ''/tmp/foo''"
      "stripSlash ''foo/'' = Inr ''foo''"
    by code_simp+
  have slash: "removeFiles table_rt (deriveFlags [''-r'', ''-v'']) ''/tmp'' [''foo/'']
        \<lparr>world = (([(''foo'', 2147484141)], []) :: table_world), trace = []\<rparr>
      = (Exited 0, \<lparr>world = ([(''foo'', 2147484141)], []), trace = [StatCall ''foo/'', StatCall ''foo'', VerboseName [], RenameCall ''foo'' ''/tmp/'']\<rparr>)"
    by code_simp
  have plain: "removeFiles table_rt (deriveFlags [''-r'', ''-v'']) ''/tmp'' [''foo'']
        \<lparr>world = (([(''foo'', 2147484141)], []) :: table_world), trace = []\<rparr>
      = (Exited 0, \<lparr>world = ([(''/tmp/foo'', 2147484141)], []), trace = [StatCall ''foo'', StatCall ''foo'', VerboseName ''foo'',
          RenameCall ''foo'' ''/tmp/foo'']\<rparr>)"
    by code_simp
  from general names slash plain show ?thesis by (intro conjI)
qed

end
